theory Spec2Isabelle
  imports Main "HOL-Library.Sublist"
begin

section \<open>Location descriptors (src/utils/azCopyUtils.ts)\<close>

text \<open>
  The location objects of the copy engine are a union tagged by their \<open>type\<close> field:
  \<open>{ type: "Local", path, useWildCard }\<close> and
  \<open>{ type: "RemoteSas", sasToken, resourceUri, path, useWildCard }\<close>.
  Strings are lists of characters; every character the code compares against
  (\<open>/\<close>, \<open>\\<close>, \<open>.\<close>, \<open>*\<close>) is ASCII.
\<close>

datatype AzCopyLocation =
    Local (path: string) (useWildCard: bool)
  | RemoteSas (sasToken: string) (resourceUri: string) (path: string) (useWildCard: bool)

fun locationType :: "AzCopyLocation \<Rightarrow> string" where
  "locationType (Local p wc) = ''Local''"
| "locationType (RemoteSas t u p wc) = ''RemoteSas''"

text \<open>
  \<open>sep\<close> is the constant of Node's \<open>path\<close> module: \<open>/\<close> on POSIX, \<open>\\<close> (character
  0x5C) on Windows.
\<close>

datatype platform = Posix | Win32

fun sep :: "platform \<Rightarrow> string" where
  "sep Posix = ''/''"
| "sep Win32 = [CHR 0x5C]"

text \<open>\<open>s.endsWith(t)\<close> of JavaScript.\<close>

definition endsWith :: "string \<Rightarrow> string \<Rightarrow> bool" where
  "endsWith s t = suffix t s"

definition createAzCopyLocalSource :: "string \<Rightarrow> AzCopyLocation" where
  "createAzCopyLocalSource sourcePath = Local sourcePath False"

text \<open>
  \<open>createAzCopyLocalDirectorySource\<close> of src/utils/azCopyUtils.ts, which appends \<open>.*\<close>:
  \<^verbatim>\<open>sourceDirectoryPath.endsWith(sep) ? `${sourceDirectoryPath}.*` : `${sourceDirectoryPath}${sep}.*`\<close>
\<close>

definition createAzCopyLocalDirectorySource :: "platform \<Rightarrow> string \<Rightarrow> AzCopyLocation" where
  "createAzCopyLocalDirectorySource pf sourceDirectoryPath =
     (let path = (if endsWith sourceDirectoryPath (sep pf)
                  then sourceDirectoryPath @ ''.*''
                  else sourceDirectoryPath @ sep pf @ ''.*'')
      in Local path True)"

text \<open>
  The function of the same name in the second copy of the file (src/unnamed/part_001),
  which appends a bare \<open>*\<close>:
  \<^verbatim>\<open>sourceDirectoryPath.endsWith(sep) ? `${sourceDirectoryPath}*` : `${sourceDirectoryPath}${sep}*`\<close>
\<close>

definition createAzCopyLocalDirectorySource_part_001 :: "platform \<Rightarrow> string \<Rightarrow> AzCopyLocation" where
  "createAzCopyLocalDirectorySource_part_001 pf sourceDirectoryPath =
     (let path = (if endsWith sourceDirectoryPath (sep pf)
                  then sourceDirectoryPath @ ''*''
                  else sourceDirectoryPath @ sep pf @ ''*'')
      in Local path True)"

text \<open>
  The destination path: \<^verbatim>\<open>destinationPath[0] === '/' ? destinationPath : `/${destinationPath}`\<close>.
  Indexing the empty string gives \<open>undefined\<close>, which is not \<open>'/'\<close>.
\<close>

definition normalizeDestinationPath :: "string \<Rightarrow> string" where
  "normalizeDestinationPath destinationPath =
     (case destinationPath of
        [] \<Rightarrow> ''/'' @ destinationPath
      | c # _ \<Rightarrow> if c = CHR ''/'' then destinationPath else ''/'' @ destinationPath)"

text \<open>
  The tree item is a blob container or a file share. The clients that give the resource
  URL (\<open>createBlobContainerClient\<close>, \<open>createShareClient\<close>) and the root's
  \<open>generateSasToken\<close> live outside src/, so they are parameters.
\<close>

datatype 'root treeItem =
    BlobContainerTreeItem (root: 'root) (container: string)
  | FileShareTreeItem (root: 'root) (shareName: string)

definition createAzCopyDestination ::
  "('root \<Rightarrow> string \<Rightarrow> string) \<Rightarrow> ('root \<Rightarrow> string \<Rightarrow> string) \<Rightarrow> ('root \<Rightarrow> string)
     \<Rightarrow> 'root treeItem \<Rightarrow> string \<Rightarrow> AzCopyLocation" where
  "createAzCopyDestination containerUrl shareUrl generateSasToken treeItem destinationPath =
     (let resourceUri = (case treeItem of
                           BlobContainerTreeItem r name \<Rightarrow> containerUrl r name
                         | FileShareTreeItem r name \<Rightarrow> shareUrl r name);
          sasToken = generateSasToken (root treeItem);
          path = normalizeDestinationPath destinationPath
      in RemoteSas sasToken resourceUri path False)"

text \<open>The three-argument \<open>createAzCopyDestination\<close> of src/unnamed/part_001.\<close>

definition createAzCopyDestination_part_001 ::
  "('root \<Rightarrow> string \<Rightarrow> string) \<Rightarrow> ('root \<Rightarrow> string) \<Rightarrow> 'root \<Rightarrow> string \<Rightarrow> string \<Rightarrow> AzCopyLocation" where
  "createAzCopyDestination_part_001 containerUrl generateSasToken r containerName destinationPath =
     (let sasToken = generateSasToken r;
          path = normalizeDestinationPath destinationPath
      in RemoteSas sasToken (containerUrl r containerName) path False)"

section \<open>The copy engine, its statuses and the observable calls\<close>

type_synonym jobId = string

record TransferStatus =
  StatusType :: string
  JobStatus :: "string option"
  ErrorMsg :: "string option"
  TransfersCompleted :: "nat option"
  BytesOverWire :: "nat option"

datatype FromToOption = LocalBlob | LocalFile

record ICopyOptions =
  fromTo :: FromToOption
  overwriteExisting :: string
  recursive :: bool
  followSymLinks :: bool
  excludePath :: "string option"

text \<open>
  The calls to the surroundings are recorded, in order: the version probe, the two
  warning dialogs and the browser, the engine's \<open>copy\<close> and \<open>getJobInfo\<close>, the
  cancellation callback, the two report operations of the progress tracker
  (\<open>TransferProgress\<close>, a class outside src/) and the timer. Building the client object
  is not recorded. The engine's two calls are scripted to answer; they do not throw.
\<close>

datatype event =
    ExecuteCommand string string
  | ShowWarningMessage string bool
  | OpenUrl string
  | Copy AzCopyLocation AzCopyLocation ICopyOptions
  | ThrowIfCanceled
  | GetJobInfo jobId
  | ReportToOutputWindow nat
  | ReportToNotification nat
  | SetTimeout nat

text \<open>What the modal download prompt gives back: the download item, nothing, or an exception.\<close>

datatype promptResult = PickedDownload | PickedNothing | PromptThrew

text \<open>
  The scripted surroundings of one transfer: whether the version probe succeeds, the
  operator's answer, the handle \<open>copy\<close> returns, and the \<open>latestStatus\<close> of the
  \<open>n\<close>-th \<open>getJobInfo\<close> call (counted from 0; \<open>None\<close> is \<open>undefined\<close>).
\<close>

record engine =
  azCopyExePath :: string
  maxUploadDownloadSizeMB :: string
  azCopyOnPath :: bool
  promptAnswer :: promptResult
  jobIdOfCopy :: jobId
  latestStatus :: "nat \<Rightarrow> TransferStatus option"

text \<open>The state threaded through the calls: how often each scripted call was made, and the log.\<close>

record world =
  checks :: nat
  fetches :: nat
  trace :: "event list"

definition initial :: world where
  "initial = \<lparr>checks = 0, fetches = 0, trace = []\<rparr>"

definition emit :: "event \<Rightarrow> world \<Rightarrow> world" where
  "emit e w = w\<lparr>trace := trace w @ [e]\<rparr>"

text \<open>An exception is either whatever the cancellation callback threw, or a \<open>new Error(message)\<close>.\<close>

datatype 'e failure = Thrown 'e | Error string

definition getJobInfo :: "engine \<Rightarrow> jobId \<Rightarrow> world \<Rightarrow> TransferStatus option \<times> world" where
  "getJobInfo eng jid w =
     (latestStatus eng (fetches w), emit (GetJobInfo jid) (w\<lparr>fetches := Suc (fetches w)\<rparr>))"

text \<open>
  \<^verbatim>\<open>if (!!throwIfCanceled) { throwIfCanceled(); }\<close>: the callback is optional; its \<open>n\<close>-th
  invocation throws \<open>e\<close> when the script says \<open>Some e\<close>.
\<close>

definition invokeThrowIfCanceled :: "(nat \<Rightarrow> 'e option) option \<Rightarrow> world \<Rightarrow> 'e option \<times> world" where
  "invokeThrowIfCanceled throwIfCanceled w =
     (case throwIfCanceled of
        None \<Rightarrow> (None, w)
      | Some chk \<Rightarrow> (chk (checks w), emit ThrowIfCanceled (w\<lparr>checks := Suc (checks w)\<rparr>)))"

text \<open>The loop condition \<^verbatim>\<open>!status || status.StatusType !== 'EndOfJob'\<close>, negated.\<close>

definition isEndOfJob :: "TransferStatus option \<Rightarrow> bool" where
  "isEndOfJob status = (case status of None \<Rightarrow> False | Some s \<Rightarrow> StatusType s = ''EndOfJob'')"

text \<open>
  \<^verbatim>\<open>status && (src.useWildCard ? status.TransfersCompleted : status.BytesOverWire) || 0\<close>:
  an absent status, an absent counter and the counter 0 are all falsy and give 0.
\<close>

definition finishedWork :: "AzCopyLocation \<Rightarrow> TransferStatus option \<Rightarrow> nat" where
  "finishedWork src status =
     (case status of
        None \<Rightarrow> 0
      | Some s \<Rightarrow>
          (case (if useWildCard src then TransfersCompleted s else BytesOverWire s) of
             None \<Rightarrow> 0
           | Some n \<Rightarrow> if n = 0 then 0 else n))"

section \<open>The job poller: \<open>startAndWaitForCopy\<close>\<close>

text \<open>
  The \<^verbatim>\<open>while\<close> loop. It need not end (a job that never reports \<open>EndOfJob\<close> is polled
  for ever), so not returning is the value \<open>None\<close>.
\<close>

partial_function (option) pollLoop ::
  "engine \<Rightarrow> AzCopyLocation \<Rightarrow> jobId \<Rightarrow> bool \<Rightarrow> (nat \<Rightarrow> 'e option) option
     \<Rightarrow> TransferStatus option \<Rightarrow> world \<Rightarrow> (('e failure + jobId) \<times> world) option" where
  "pollLoop eng src jid notificationProgress throwIfCanceled status w =
     (if \<not> isEndOfJob status then
        (case invokeThrowIfCanceled throwIfCanceled w of
           (Some e, w1) \<Rightarrow> Some (Inl (Thrown e), w1)
         | (None, w1) \<Rightarrow>
             (case getJobInfo eng jid w1 of
                (status', w2) \<Rightarrow>
                  (let finished = finishedWork src status';
                       w3 = emit (ReportToOutputWindow finished) w2;
                       w4 = (if notificationProgress then emit (ReportToNotification finished) w3 else w3);
                       w5 = emit (SetTimeout 1000) w4
                   in pollLoop eng src jid notificationProgress throwIfCanceled status' w5)))
      else Some (Inr jid, w))"

definition startAndWaitForCopy ::
  "engine \<Rightarrow> AzCopyLocation \<Rightarrow> AzCopyLocation \<Rightarrow> ICopyOptions \<Rightarrow> bool \<Rightarrow> (nat \<Rightarrow> 'e option) option
     \<Rightarrow> world \<Rightarrow> (('e failure + jobId) \<times> world) option" where
  "startAndWaitForCopy eng src dst options notificationProgress throwIfCanceled w =
     (let jid = jobIdOfCopy eng;
          w1 = emit (Copy src dst options) w
      in pollLoop eng src jid notificationProgress throwIfCanceled None w1)"

section \<open>The transfer facade: \<open>azCopyTransfer\<close>\<close>

definition azCopyInstalled :: "engine \<Rightarrow> world \<Rightarrow> bool \<times> world" where
  "azCopyInstalled eng w = (azCopyOnPath eng, emit (ExecuteCommand (azCopyExePath eng) ''--version'') w)"

text \<open>
  The callback handed to \<open>callWithTelemetryAndErrorHandling\<close>; \<open>Inl ()\<close> is an exception
  escaping from it.
\<close>

definition validateCallback :: "engine \<Rightarrow> world \<Rightarrow> (unit + bool) \<times> world" where
  "validateCallback eng w =
     (case azCopyInstalled eng w of
        (installed, w1) \<Rightarrow>
          if installed then (Inr True, w1)
          else
            (let message = ''AzCopy is required for multiple file transfers and transfers >''
                             @ maxUploadDownloadSizeMB eng @ ''MB.'';
                 w2 = emit (ShowWarningMessage message True) w1
             in case promptAnswer eng of
                  PromptThrew \<Rightarrow> (Inl (), w2)
                | PickedNothing \<Rightarrow> (Inr False, w2)
                | PickedDownload \<Rightarrow>
                    (let w3 = emit (OpenUrl ''https://docs.microsoft.com/en-us/azure/storage/common/storage-use-azcopy-v10'') w2;
                         w4 = emit (ShowWarningMessage ''Be sure to add \"azcopy\" to your path after downloading.'' False) w3
                     in (Inr False, w4))))"

text \<open>
  Modelled from the spec: \<open>callWithTelemetryAndErrorHandling\<close> comes from the package
  vscode-azureextensionui, not from src/. The spec calls it a telemetry wrapper and the
  unavailable engine "not a hard error": an exception of the callback is handled inside
  and the call gives \<open>undefined\<close>.
\<close>

definition callWithTelemetryAndErrorHandling :: "(unit + 'a) \<times> world \<Rightarrow> 'a option \<times> world" where
  "callWithTelemetryAndErrorHandling r =
     (case r of (Inl _, w) \<Rightarrow> (None, w) | (Inr v, w) \<Rightarrow> (Some v, w))"

text \<open>\<^verbatim>\<open>return await callWithTelemetryAndErrorHandling(...) || false\<close>\<close>

definition validateAzCopyInstalled :: "engine \<Rightarrow> world \<Rightarrow> bool \<times> world" where
  "validateAzCopyInstalled eng w =
     (case callWithTelemetryAndErrorHandling (validateCallback eng w) of
        (None, w') \<Rightarrow> (False, w')
      | (Some b, w') \<Rightarrow> (b, w'))"

text \<open>
  Modelled from the spec: \<open>localize\<close> (src/utils/localize) is not under src/. In the
  default locale it gives the default message it is handed, which is how the spec reads
  the failure text.
\<close>

definition localize :: "string \<Rightarrow> string \<Rightarrow> string" where
  "localize key message = message"

text \<open>
  \<^verbatim>\<open>`AzCopy Transfer Failed${finalTransferStatus?.ErrorMsg ? `: ${finalTransferStatus.ErrorMsg}` : ''}`\<close>:
  an absent status, an absent message and the empty message are falsy.
\<close>

definition transferFailedMessage :: "TransferStatus option \<Rightarrow> string" where
  "transferFailedMessage finalTransferStatus =
     ''AzCopy Transfer Failed'' @
       (case finalTransferStatus of
          None \<Rightarrow> ''''
        | Some s \<Rightarrow> (case ErrorMsg s of
                       None \<Rightarrow> ''''
                     | Some m \<Rightarrow> if m = '''' then '''' else '': '' @ m))"

definition copyOptions :: "FromToOption \<Rightarrow> ICopyOptions" where
  "copyOptions ft = \<lparr>fromTo = ft, overwriteExisting = ''true'', recursive = True,
                     followSymLinks = True, excludePath = Some ''.git;.vscode''\<rparr>"

definition azCopyTransfer ::
  "engine \<Rightarrow> AzCopyLocation \<Rightarrow> AzCopyLocation \<Rightarrow> FromToOption \<Rightarrow> bool \<Rightarrow> (nat \<Rightarrow> 'e option) option
     \<Rightarrow> world \<Rightarrow> (('e failure + unit) \<times> world) option" where
  "azCopyTransfer eng src dst ft notificationProgress throwIfCanceled w =
     (case validateAzCopyInstalled eng w of
        (ok, w1) \<Rightarrow>
          if ok then
            (case startAndWaitForCopy eng src dst (copyOptions ft) notificationProgress throwIfCanceled w1 of
               None \<Rightarrow> None
             | Some (Inl e, w2) \<Rightarrow> Some (Inl e, w2)
             | Some (Inr jid, w2) \<Rightarrow>
                 (case getJobInfo eng jid w2 of
                    (finalTransferStatus, w3) \<Rightarrow>
                      if finalTransferStatus = None \<or> JobStatus (the finalTransferStatus) = Some ''Failed''
                      then Some (Inl (Error (localize ''azCopyTransferFailed''
                                               (transferFailedMessage finalTransferStatus))), w3)
                      else Some (Inr (), w3)))
          else Some (Inr (), w1))"

definition azCopyBlobTransfer ::
  "engine \<Rightarrow> AzCopyLocation \<Rightarrow> AzCopyLocation \<Rightarrow> bool \<Rightarrow> (nat \<Rightarrow> 'e option) option
     \<Rightarrow> world \<Rightarrow> (('e failure + unit) \<times> world) option" where
  "azCopyBlobTransfer eng src dst notificationProgress throwIfCanceled w =
     azCopyTransfer eng src dst LocalBlob notificationProgress throwIfCanceled w"

definition azCopyFileTransfer ::
  "engine \<Rightarrow> AzCopyLocation \<Rightarrow> AzCopyLocation \<Rightarrow> bool \<Rightarrow> (nat \<Rightarrow> 'e option) option
     \<Rightarrow> world \<Rightarrow> (('e failure + unit) \<times> world) option" where
  "azCopyFileTransfer eng src dst notificationProgress throwIfCanceled w =
     azCopyTransfer eng src dst LocalFile notificationProgress throwIfCanceled w"

text \<open>
  \<open>azCopyTransfer\<close> of src/unnamed/part_001: the same body, with the direction fixed to
  \<open>LocalBlob\<close> and no \<open>excludePath\<close>.
\<close>

definition copyOptions_part_001 :: ICopyOptions where
  "copyOptions_part_001 = \<lparr>fromTo = LocalBlob, overwriteExisting = ''true'', recursive = True,
                            followSymLinks = True, excludePath = None\<rparr>"

definition azCopyTransfer_part_001 ::
  "engine \<Rightarrow> AzCopyLocation \<Rightarrow> AzCopyLocation \<Rightarrow> bool \<Rightarrow> (nat \<Rightarrow> 'e option) option
     \<Rightarrow> world \<Rightarrow> (('e failure + unit) \<times> world) option" where
  "azCopyTransfer_part_001 eng src dst notificationProgress throwIfCanceled w =
     (case validateAzCopyInstalled eng w of
        (ok, w1) \<Rightarrow>
          if ok then
            (case startAndWaitForCopy eng src dst copyOptions_part_001 notificationProgress throwIfCanceled w1 of
               None \<Rightarrow> None
             | Some (Inl e, w2) \<Rightarrow> Some (Inl e, w2)
             | Some (Inr jid, w2) \<Rightarrow>
                 (case getJobInfo eng jid w2 of
                    (finalTransferStatus, w3) \<Rightarrow>
                      if finalTransferStatus = None \<or> JobStatus (the finalTransferStatus) = Some ''Failed''
                      then Some (Inl (Error (localize ''azCopyTransferFailed''
                                               (transferFailedMessage finalTransferStatus))), w3)
                      else Some (Inr (), w3)))
          else Some (Inr (), w1))"

section \<open>Vocabulary of the statements\<close>

text \<open>
  The calls of one pass through the loop body whose status fetch is the \<open>n\<close>-th one: the
  cancellation callback (when one was supplied), the fetch, the report to the output
  window, the report to the notification (when a sink was supplied), the timer.
\<close>

definition cycleEvents :: "engine \<Rightarrow> AzCopyLocation \<Rightarrow> jobId \<Rightarrow> bool \<Rightarrow> bool \<Rightarrow> nat \<Rightarrow> event list" where
  "cycleEvents eng src jid notificationProgress hasCheck n =
     (if hasCheck then [ThrowIfCanceled] else []) @
     [GetJobInfo jid, ReportToOutputWindow (finishedWork src (latestStatus eng n))] @
     (if notificationProgress then [ReportToNotification (finishedWork src (latestStatus eng n))] else []) @
     [SetTimeout 1000]"

text \<open>The \<open>n\<close>-th invocation of the cancellation callback, if there is a callback, does not throw.\<close>

definition checkPasses :: "(nat \<Rightarrow> 'e option) option \<Rightarrow> nat \<Rightarrow> bool" where
  "checkPasses throwIfCanceled n = (case throwIfCanceled of None \<Rightarrow> True | Some chk \<Rightarrow> chk n = None)"

definition checksPassBefore :: "(nat \<Rightarrow> 'e option) option \<Rightarrow> nat \<Rightarrow> bool" where
  "checksPassBefore throwIfCanceled k = list_all (checkPasses throwIfCanceled) [0..<k]"

text \<open>The \<open>k\<close>-th scripted status (counted from 1) is the first whose type is \<open>EndOfJob\<close>.\<close>

definition firstEndOfJobAt :: "engine \<Rightarrow> nat \<Rightarrow> bool" where
  "firstEndOfJobAt eng k =
     (0 < k \<and> isEndOfJob (latestStatus eng (k - 1)) \<and>
      list_all (\<lambda>i. \<not> isEndOfJob (latestStatus eng i)) [0..<k - 1])"

fun isSubmission :: "event \<Rightarrow> bool" where
  "isSubmission (Copy s d opts) = True"
| "isSubmission e = False"

fun isFetch :: "event \<Rightarrow> bool" where
  "isFetch (GetJobInfo jid) = True"
| "isFetch e = False"

fun isCheck :: "event \<Rightarrow> bool" where
  "isCheck ThrowIfCanceled = True"
| "isCheck e = False"

fun isWait :: "event \<Rightarrow> bool" where
  "isWait (SetTimeout ms) = True"
| "isWait e = False"

fun isReport :: "event \<Rightarrow> bool" where
  "isReport (ReportToOutputWindow n) = True"
| "isReport (ReportToNotification n) = True"
| "isReport e = False"

definition occurrences :: "(event \<Rightarrow> bool) \<Rightarrow> world \<Rightarrow> nat" where
  "occurrences P w = length (filter P (trace w))"

text \<open>
  Pacing of the status fetches, read off the log from left to right: every fetch but the
  first comes after a timer of at least 1000 ms that was set after the fetch before it.
  The flag says whether such a timer has run since the last fetch.
\<close>

fun pacedByTimer :: "bool \<Rightarrow> event list \<Rightarrow> bool" where
  "pacedByTimer waited [] = True"
| "pacedByTimer waited (GetJobInfo jid # es) = (waited \<and> pacedByTimer False es)"
| "pacedByTimer waited (SetTimeout ms # es) = pacedByTimer (waited \<or> 1000 \<le> ms) es"
| "pacedByTimer waited (e # es) = pacedByTimer waited es"

subsection \<open>Concrete surroundings used for evaluation\<close>

definition exampleContainerUrl :: "string \<Rightarrow> string \<Rightarrow> string" where
  "exampleContainerUrl r name = r @ ''/'' @ name"

definition exampleSasToken :: "string \<Rightarrow> string" where
  "exampleSasToken r = ''sv=2019&sig=abc''"

definition progressStatus :: "nat \<Rightarrow> TransferStatus" where
  "progressStatus n = \<lparr>StatusType = ''Progress'', JobStatus = Some ''InProgress'', ErrorMsg = None,
                        TransfersCompleted = Some n, BytesOverWire = Some (4096 * n)\<rparr>"

definition endStatus :: "string \<Rightarrow> string option \<Rightarrow> nat \<Rightarrow> TransferStatus" where
  "endStatus outcome msg n = \<lparr>StatusType = ''EndOfJob'', JobStatus = Some outcome, ErrorMsg = msg,
                               TransfersCompleted = Some n, BytesOverWire = Some (4096 * n)\<rparr>"

definition tenFilesScript :: "nat \<Rightarrow> TransferStatus option" where
  "tenFilesScript n =
     (if n = 0 then Some (progressStatus 0)
      else if n = 1 then Some (progressStatus 3)
      else if n = 2 then Some (progressStatus 7)
      else Some (endStatus ''Completed'' None 10))"

definition tenFilesEngine :: engine where
  "tenFilesEngine = \<lparr>azCopyExePath = ''azcopy'', maxUploadDownloadSizeMB = ''4'', azCopyOnPath = True,
                      promptAnswer = PickedNothing, jobIdOfCopy = ''job-1'', latestStatus = tenFilesScript\<rparr>"

definition immediateScript :: "nat \<Rightarrow> TransferStatus option" where
  "immediateScript n = Some (endStatus ''Completed'' None 1)"

definition immediateEngine :: engine where
  "immediateEngine = \<lparr>azCopyExePath = ''azcopy'', maxUploadDownloadSizeMB = ''4'', azCopyOnPath = True,
                       promptAnswer = PickedNothing, jobIdOfCopy = ''job-1'', latestStatus = immediateScript\<rparr>"

definition exampleSource :: AzCopyLocation where
  "exampleSource = createAzCopyLocalDirectorySource Posix ''/home/me/site''"

definition exampleDestination :: AzCopyLocation where
  "exampleDestination = createAzCopyDestination exampleContainerUrl exampleContainerUrl exampleSasToken
                          (BlobContainerTreeItem ''https://acct.blob.core.windows.net'' ''backup'') ''site''"

definition noCallback :: "(nat \<Rightarrow> string option) option" where
  "noCallback = None"

definition cancelOnSecondCheck :: "nat \<Rightarrow> string option" where
  "cancelOnSecondCheck n = (if n = 1 then Some ''UserCancelledError'' else None)"

definition neverCanceled :: "nat \<Rightarrow> string option" where
  "neverCanceled n = None"

definition failedScript :: "nat \<Rightarrow> TransferStatus option" where
  "failedScript n =
     (if n = 0 then Some (progressStatus 0) else Some (endStatus ''Failed'' (Some ''disk quota exceeded'') 0))"

definition failedEngine :: engine where
  "failedEngine = \<lparr>azCopyExePath = ''azcopy'', maxUploadDownloadSizeMB = ''4'', azCopyOnPath = True,
                    promptAnswer = PickedNothing, jobIdOfCopy = ''job-2'', latestStatus = failedScript\<rparr>"

text \<open>A script with a gap: no status at the first poll, no counters at the second.\<close>

definition gappyScript :: "nat \<Rightarrow> TransferStatus option" where
  "gappyScript n =
     (if n = 0 then None
      else if n = 1 then Some \<lparr>StatusType = ''Progress'', JobStatus = None, ErrorMsg = None,
                               TransfersCompleted = None, BytesOverWire = None\<rparr>
      else Some (endStatus ''Completed'' None 5))"

definition gappyEngine :: engine where
  "gappyEngine = \<lparr>azCopyExePath = ''azcopy'', maxUploadDownloadSizeMB = ''4'', azCopyOnPath = True,
                   promptAnswer = PickedNothing, jobIdOfCopy = ''job-4'', latestStatus = gappyScript\<rparr>"

definition missingEngine :: engine where
  "missingEngine = \<lparr>azCopyExePath = ''azcopy'', maxUploadDownloadSizeMB = ''4'', azCopyOnPath = False,
                     promptAnswer = PickedDownload, jobIdOfCopy = ''job-3'', latestStatus = tenFilesScript\<rparr>"

section \<open>Location descriptors: properties\<close>

lemma suffix_glob: "suffix (a @ g) (p @ g) = suffix a p"
  by simp

lemma directory_path_cases:
  "path (createAzCopyLocalDirectorySource pf p) = (if endsWith p (sep pf) then p else p @ sep pf) @ ''.*''"
  "path (createAzCopyLocalDirectorySource_part_001 pf p) = (if endsWith p (sep pf) then p else p @ sep pf) @ ''*''"
  by (simp_all add: createAzCopyLocalDirectorySource_def createAzCopyLocalDirectorySource_part_001_def)

lemma sep_single: "\<exists>c. sep pf = [c]"
  by (cases pf) simp_all

lemma no_double_separator:
  assumes "\<not> suffix (s @ s) p" and "s = [c]"
  shows "\<not> suffix (s @ s @ g) ((if suffix s p then p else p @ s) @ g)"
proof (cases "suffix s p")
  case True
  have "suffix (s @ s @ g) (p @ g) = suffix (s @ s) p"
    using suffix_glob[of "s @ s" g p] by simp
  with True assms(1) show ?thesis by simp
next
  case False
  have "suffix (s @ s @ g) ((p @ s) @ g) = suffix (s @ s) (p @ s)"
    using suffix_glob[of "s @ s" g "p @ s"] by simp
  also have "\<dots> = suffix s p"
    by simp
  finally show ?thesis using False by simp
qed

text \<open>
  C7, as stated, at a directory path that already ends with two separators: the function
  sees a trailing separator, appends only the glob, and the glob ends up behind two
  separators.
\<close>

theorem createAzCopyLocalDirectorySource_double_separator:
  "path (createAzCopyLocalDirectorySource Posix ''dir//'') = ''dir//.*'' \<and>
   endsWith (path (createAzCopyLocalDirectorySource Posix ''dir//'')) (sep Posix @ sep Posix @ ''.*'')"
  by (simp add: createAzCopyLocalDirectorySource_def endsWith_def suffix_def)

text \<open>
  C7 (amended). For every directory path, both variants of
  \<open>createAzCopyLocalDirectorySource\<close> return a \<open>Local\<close> descriptor with \<open>useWildCard\<close>
  true whose path is the input, then one separator if the input does not end with one,
  then the glob suffix. The glob suffix is therefore always directly behind a separator,
  and behind exactly one whenever the input does not itself end with two separators.
\<close>

theorem createAzCopyLocalDirectorySource_separator:
  "locationType (createAzCopyLocalDirectorySource pf p) = ''Local'' \<and>
   useWildCard (createAzCopyLocalDirectorySource pf p) \<and>
   path (createAzCopyLocalDirectorySource pf p) = (if endsWith p (sep pf) then p else p @ sep pf) @ ''.*'' \<and>
   endsWith (path (createAzCopyLocalDirectorySource pf p)) (sep pf @ ''.*'') \<and>
   (\<not> endsWith p (sep pf @ sep pf) \<longrightarrow>
      \<not> endsWith (path (createAzCopyLocalDirectorySource pf p)) (sep pf @ sep pf @ ''.*'')) \<and>
   locationType (createAzCopyLocalDirectorySource_part_001 pf p) = ''Local'' \<and>
   useWildCard (createAzCopyLocalDirectorySource_part_001 pf p) \<and>
   path (createAzCopyLocalDirectorySource_part_001 pf p) = (if endsWith p (sep pf) then p else p @ sep pf) @ ''*'' \<and>
   endsWith (path (createAzCopyLocalDirectorySource_part_001 pf p)) (sep pf @ ''*'') \<and>
   (\<not> endsWith p (sep pf @ sep pf) \<longrightarrow>
      \<not> endsWith (path (createAzCopyLocalDirectorySource_part_001 pf p)) (sep pf @ sep pf @ ''*''))"
proof -
  obtain c where c: "sep pf = [c]" using sep_single by blast
  have e1: "endsWith ((if endsWith p (sep pf) then p else p @ sep pf) @ g) (sep pf @ g)" for g
    by (simp add: endsWith_def suffix_def)
  have e2: "\<not> endsWith p (sep pf @ sep pf) \<Longrightarrow>
            \<not> endsWith ((if endsWith p (sep pf) then p else p @ sep pf) @ g) (sep pf @ sep pf @ g)" for g
    unfolding endsWith_def using no_double_separator[OF _ c] by blast
  show ?thesis
    unfolding directory_path_cases
    using e1 e2
    by (simp add: createAzCopyLocalDirectorySource_def createAzCopyLocalDirectorySource_part_001_def)
qed

theorem createAzCopyLocalDirectorySource_separator_witness:
  "\<not> endsWith ''C:/work'' (sep Posix @ sep Posix) \<and>
   \<not> endsWith (path (createAzCopyLocalDirectorySource Posix ''C:/work'')) (sep Posix @ sep Posix @ ''.*'') \<and>
   \<not> endsWith (path (createAzCopyLocalDirectorySource_part_001 Posix ''C:/work'')) (sep Posix @ sep Posix @ ''*'')"
proof -
  have h: "\<not> endsWith ''C:/work'' (sep Posix @ sep Posix)"
    by (simp add: endsWith_def suffix_def)
  show ?thesis
    using h createAzCopyLocalDirectorySource_separator[of Posix "''C:/work''"] by blast
qed

text \<open>
  C8. For every destination path, both variants of \<open>createAzCopyDestination\<close> return a
  \<open>RemoteSas\<close> descriptor whose path begins with \<open>/\<close> and whose \<open>useWildCard\<close> is false;
  a path that already begins with \<open>/\<close> is kept as it is, any other gets one \<open>/\<close> in
  front, and normalising a normalised path changes nothing.
\<close>

theorem createAzCopyDestination_leading_separator:
  "locationType (createAzCopyDestination cu su gen ti p) = ''RemoteSas'' \<and>
   prefix ''/'' (path (createAzCopyDestination cu su gen ti p)) \<and>
   \<not> useWildCard (createAzCopyDestination cu su gen ti p) \<and>
   (prefix ''/'' p \<longrightarrow> path (createAzCopyDestination cu su gen ti p) = p) \<and>
   (\<not> prefix ''/'' p \<longrightarrow> path (createAzCopyDestination cu su gen ti p) = ''/'' @ p) \<and>
   path (createAzCopyDestination cu su gen ti (path (createAzCopyDestination cu su gen ti p)))
     = path (createAzCopyDestination cu su gen ti p) \<and>
   locationType (createAzCopyDestination_part_001 cu gen r name p) = ''RemoteSas'' \<and>
   prefix ''/'' (path (createAzCopyDestination_part_001 cu gen r name p)) \<and>
   \<not> useWildCard (createAzCopyDestination_part_001 cu gen r name p) \<and>
   (prefix ''/'' p \<longrightarrow> path (createAzCopyDestination_part_001 cu gen r name p) = p) \<and>
   (\<not> prefix ''/'' p \<longrightarrow> path (createAzCopyDestination_part_001 cu gen r name p) = ''/'' @ p) \<and>
   path (createAzCopyDestination_part_001 cu gen r name (path (createAzCopyDestination_part_001 cu gen r name p)))
     = path (createAzCopyDestination_part_001 cu gen r name p)"
  by (cases p) (simp_all add: createAzCopyDestination_def createAzCopyDestination_part_001_def
        normalizeDestinationPath_def Let_def)

theorem createAzCopyDestination_leading_separator_witness:
  "prefix ''/'' ''/docs/a.txt'' \<and>
   path (createAzCopyDestination exampleContainerUrl exampleContainerUrl exampleSasToken
           (BlobContainerTreeItem ''https://acct.blob.core.windows.net'' ''backup'') ''/docs/a.txt'')
     = ''/docs/a.txt'' \<and>
   path (createAzCopyDestination_part_001 exampleContainerUrl exampleSasToken
           ''https://acct.blob.core.windows.net'' ''backup'' ''/docs/a.txt'')
     = ''/docs/a.txt'' \<and>
   \<not> prefix ''/'' ''site'' \<and>
   path (createAzCopyDestination exampleContainerUrl exampleContainerUrl exampleSasToken
           (FileShareTreeItem ''https://acct.file.core.windows.net'' ''share'') ''site'')
     = ''/'' @ ''site'' \<and>
   path (createAzCopyDestination_part_001 exampleContainerUrl exampleSasToken
           ''https://acct.blob.core.windows.net'' ''backup'' ''site'')
     = ''/'' @ ''site''"
proof -
  have h: "prefix ''/'' ''/docs/a.txt''"
    by simp
  have g: "\<not> prefix ''/'' ''site''"
    by simp
  show ?thesis
    using h g
      createAzCopyDestination_leading_separator[where p = "''/docs/a.txt''"
        and cu = exampleContainerUrl and su = exampleContainerUrl and gen = exampleSasToken
        and ti = "BlobContainerTreeItem ''https://acct.blob.core.windows.net'' ''backup''"
        and r = "''https://acct.blob.core.windows.net''" and name = "''backup''"]
      createAzCopyDestination_leading_separator[where p = "''site''"
        and cu = exampleContainerUrl and su = exampleContainerUrl and gen = exampleSasToken
        and ti = "FileShareTreeItem ''https://acct.file.core.windows.net'' ''share''"
        and r = "''https://acct.blob.core.windows.net''" and name = "''backup''"]
    by blast
qed

text \<open>
  C9. The two implementations of \<open>createAzCopyLocalDirectorySource\<close> agree on the type
  (\<open>Local\<close>) and on \<open>useWildCard\<close> (true), and their paths share everything before the
  glob suffix: one ends with \<open>.*\<close>, the other with \<open>*\<close>. Their paths are never equal.
\<close>

theorem directory_source_variants_differ_only_in_glob:
  "locationType (createAzCopyLocalDirectorySource pf p) = ''Local'' \<and>
   locationType (createAzCopyLocalDirectorySource_part_001 pf p) = ''Local'' \<and>
   useWildCard (createAzCopyLocalDirectorySource pf p) \<and>
   useWildCard (createAzCopyLocalDirectorySource_part_001 pf p) \<and>
   (\<exists>base. path (createAzCopyLocalDirectorySource pf p) = base @ ''.*'' \<and>
           path (createAzCopyLocalDirectorySource_part_001 pf p) = base @ ''*'') \<and>
   path (createAzCopyLocalDirectorySource pf p) \<noteq> path (createAzCopyLocalDirectorySource_part_001 pf p)"
  by (simp add: createAzCopyLocalDirectorySource_def createAzCopyLocalDirectorySource_part_001_def)

section \<open>The poller: one pass, a whole run, a cancelled run\<close>

lemma pollLoop_cycle:
  assumes "\<not> isEndOfJob status"
    and "checkPasses throwIfCanceled (checks w)"
  shows "pollLoop eng src jid notif throwIfCanceled status w =
         pollLoop eng src jid notif throwIfCanceled (latestStatus eng (fetches w))
           (w\<lparr>checks := (if throwIfCanceled = None then checks w else Suc (checks w)),
              fetches := Suc (fetches w),
              trace := trace w @ cycleEvents eng src jid notif (throwIfCanceled \<noteq> None) (fetches w)\<rparr>)"
  using assms
  by (subst pollLoop.simps)
     (cases throwIfCanceled; simp add: checkPasses_def invokeThrowIfCanceled_def getJobInfo_def emit_def cycleEvents_def Let_def)

lemma pollLoop_done:
  "isEndOfJob status \<Longrightarrow> pollLoop eng src jid notif throwIfCanceled status w = Some (Inr jid, w)"
  by (subst pollLoop.simps) simp

lemma pollLoop_throws:
  assumes "\<not> isEndOfJob status" and "chk (checks w) = Some e"
  shows "pollLoop eng src jid notif (Some chk) status w =
         Some (Inl (Thrown e), w\<lparr>checks := Suc (checks w), trace := trace w @ [ThrowIfCanceled]\<rparr>)"
  using assms
  by (subst pollLoop.simps) (simp add: invokeThrowIfCanceled_def emit_def)

lemma pollLoop_completes:
  assumes "\<not> isEndOfJob status"
    and "\<forall>i<m. \<not> isEndOfJob (latestStatus eng (fetches w + i))"
    and "isEndOfJob (latestStatus eng (fetches w + m))"
    and "\<forall>i\<le>m. checkPasses throwIfCanceled (checks w + i)"
  shows "pollLoop eng src jid notif throwIfCanceled status w =
         Some (Inr jid,
               w\<lparr>checks := (if throwIfCanceled = None then checks w else checks w + Suc m),
                 fetches := fetches w + Suc m,
                 trace := trace w @ concat (map (cycleEvents eng src jid notif (throwIfCanceled \<noteq> None))
                                              [fetches w ..< fetches w + Suc m])\<rparr>)"
  using assms
proof (induction m arbitrary: status w)
  case 0
  have c: "checkPasses throwIfCanceled (checks w)"
    using "0.prems"(4) by simp
  show ?case
    using "0.prems"(3)
    by (simp add: pollLoop_cycle[OF "0.prems"(1) c] pollLoop_done)
next
  case (Suc m)
  have c: "checkPasses throwIfCanceled (checks w)"
    using Suc.prems(4) by (metis add.right_neutral le0)
  let ?w = "w\<lparr>checks := (if throwIfCanceled = None then checks w else Suc (checks w)),
              fetches := Suc (fetches w),
              trace := trace w @ cycleEvents eng src jid notif (throwIfCanceled \<noteq> None) (fetches w)\<rparr>"
  have s: "\<not> isEndOfJob (latestStatus eng (fetches w))"
    using Suc.prems(2) by (metis add.right_neutral zero_less_Suc)
  have a: "\<forall>i<m. \<not> isEndOfJob (latestStatus eng (fetches ?w + i))"
    using Suc.prems(2) by auto
  have b: "isEndOfJob (latestStatus eng (fetches ?w + m))"
    using Suc.prems(3) by simp
  have d: "\<forall>i\<le>m. checkPasses throwIfCanceled (checks ?w + i)"
  proof (intro allI impI)
    fix i assume "i \<le> m"
    then have "Suc i \<le> Suc m" by simp
    then have "checkPasses throwIfCanceled (checks w + Suc i)"
      using Suc.prems(4) by blast
    then show "checkPasses throwIfCanceled (checks ?w + i)"
      by (cases throwIfCanceled) (simp_all add: checkPasses_def)
  qed
  have u: "[fetches w ..< fetches w + Suc (Suc m)] = fetches w # [fetches ?w ..< fetches ?w + Suc m]"
    by (subst upt_rec) simp
  show ?case
    unfolding pollLoop_cycle[OF Suc.prems(1) c] u
    by (subst Suc.IH[OF s a b d]) (simp del: upt_Suc)
qed

lemma pollLoop_canceled:
  assumes "\<not> isEndOfJob status"
    and "\<forall>i<j. \<not> isEndOfJob (latestStatus eng (fetches w + i))"
    and "\<forall>i<j. chk (checks w + i) = None"
    and "chk (checks w + j) = Some e"
  shows "pollLoop eng src jid notif (Some chk) status w =
         Some (Inl (Thrown e),
               w\<lparr>checks := checks w + Suc j,
                 fetches := fetches w + j,
                 trace := trace w @ concat (map (cycleEvents eng src jid notif True)
                                              [fetches w ..< fetches w + j]) @ [ThrowIfCanceled]\<rparr>)"
  using assms
proof (induction j arbitrary: status w)
  case 0
  then show ?case by (simp add: pollLoop_throws)
next
  case (Suc j)
  have "chk (checks w + 0) = None"
    using Suc.prems(3) by blast
  then have c: "checkPasses (Some chk) (checks w)"
    by (simp add: checkPasses_def)
  let ?w = "w\<lparr>checks := (if Some chk = None then checks w else Suc (checks w)),
              fetches := Suc (fetches w),
              trace := trace w @ cycleEvents eng src jid notif (Some chk \<noteq> None) (fetches w)\<rparr>"
  have s: "\<not> isEndOfJob (latestStatus eng (fetches w))"
    using Suc.prems(2) by (metis add.right_neutral zero_less_Suc)
  have a: "\<forall>i<j. \<not> isEndOfJob (latestStatus eng (fetches ?w + i))"
    using Suc.prems(2) by auto
  have b: "\<forall>i<j. chk (checks ?w + i) = None"
    using Suc.prems(3) by auto
  have d: "chk (checks ?w + j) = Some e"
    using Suc.prems(4) by simp
  have u: "[fetches w ..< fetches w + Suc j] = fetches w # [fetches ?w ..< fetches ?w + j]"
    by (subst upt_rec) simp
  show ?case
    unfolding pollLoop_cycle[OF Suc.prems(1) c] u
    by (subst Suc.IH[OF s a b d]) (simp del: upt_Suc)
qed

lemma firstEndOfJobAt_iff:
  "firstEndOfJobAt eng k \<longleftrightarrow>
     (\<exists>m. k = Suc m \<and> (\<forall>i<m. \<not> isEndOfJob (latestStatus eng i)) \<and> isEndOfJob (latestStatus eng m))"
  by (cases k) (auto simp: firstEndOfJobAt_def list_all_iff)

lemma checksPassBefore_iff:
  "checksPassBefore throwIfCanceled k \<longleftrightarrow> (\<forall>i<k. checkPasses throwIfCanceled i)"
  by (auto simp: checksPassBefore_def list_all_iff)

text \<open>The whole run of the poller from a state in which no scripted call has been made yet.\<close>

lemma startAndWaitForCopy_run:
  assumes "firstEndOfJobAt eng k" and "checksPassBefore throwIfCanceled k"
    and "checks w = 0" and "fetches w = 0"
  shows "startAndWaitForCopy eng src dst options notif throwIfCanceled w =
         Some (Inr (jobIdOfCopy eng),
               \<lparr>checks = (if throwIfCanceled = None then 0 else k),
                fetches = k,
                trace = trace w @ Copy src dst options #
                          concat (map (cycleEvents eng src (jobIdOfCopy eng) notif (throwIfCanceled \<noteq> None)) [0..<k])\<rparr>)"
proof -
  obtain m where k: "k = Suc m" and a: "\<forall>i<m. \<not> isEndOfJob (latestStatus eng i)"
    and b: "isEndOfJob (latestStatus eng m)"
    using assms(1) firstEndOfJobAt_iff by blast
  have c: "\<forall>i\<le>m. checkPasses throwIfCanceled i"
    using assms(2) k by (simp add: checksPassBefore_iff less_Suc_eq_le)
  let ?w = "emit (Copy src dst options) w"
  have n: "\<not> isEndOfJob None"
    by (simp add: isEndOfJob_def)
  have a': "\<forall>i<m. \<not> isEndOfJob (latestStatus eng (fetches ?w + i))"
    using a assms(4) by (simp add: emit_def)
  have b': "isEndOfJob (latestStatus eng (fetches ?w + m))"
    using b assms(4) by (simp add: emit_def)
  have c': "\<forall>i\<le>m. checkPasses throwIfCanceled (checks ?w + i)"
    using c assms(3) by (simp add: emit_def)
  show ?thesis
    unfolding startAndWaitForCopy_def Let_def
    using assms(3,4)
    by (subst pollLoop_completes[OF n a' b' c'])
       (cases w; simp add: emit_def k del: upt_Suc)
qed

lemma startAndWaitForCopy_canceled:
  assumes "firstEndOfJobAt eng k" and "j < k" and "checksPassBefore (Some chk) j" and "chk j = Some e"
    and "checks w = 0" and "fetches w = 0"
  shows "startAndWaitForCopy eng src dst options notif (Some chk) w =
         Some (Inl (Thrown e),
               \<lparr>checks = Suc j,
                fetches = j,
                trace = trace w @ Copy src dst options #
                          concat (map (cycleEvents eng src (jobIdOfCopy eng) notif True) [0..<j]) @ [ThrowIfCanceled]\<rparr>)"
proof -
  obtain m where k: "k = Suc m" and a: "\<forall>i<m. \<not> isEndOfJob (latestStatus eng i)"
    using assms(1) firstEndOfJobAt_iff by blast
  let ?w = "emit (Copy src dst options) w"
  have n: "\<not> isEndOfJob None"
    by (simp add: isEndOfJob_def)
  have a': "\<forall>i<j. \<not> isEndOfJob (latestStatus eng (fetches ?w + i))"
    using a assms(2,6) k by (simp add: emit_def)
  have c': "\<forall>i<j. chk (checks ?w + i) = None"
    using assms(3,5) by (simp add: emit_def checksPassBefore_iff checkPasses_def)
  have d': "chk (checks ?w + j) = Some e"
    using assms(4,5) by (simp add: emit_def)
  show ?thesis
    unfolding startAndWaitForCopy_def Let_def
    using assms(5,6)
    by (subst pollLoop_canceled[OF n a' c' d'])
       (cases w; simp add: emit_def del: upt_Suc)
qed

lemma filter_cycles:
  "(\<And>n. filter P (g n) = h n) \<Longrightarrow> filter P (concat (map g ns)) = concat (map h ns)"
  by (induction ns) auto

lemma concat_const: "concat (map (\<lambda>n. xs) ns) = concat (replicate (length ns) xs)"
  by (induction ns) auto

lemma cycle_filters:
  "filter isSubmission (cycleEvents eng src jid notif hasCheck n) = []"
  "filter isFetch (cycleEvents eng src jid notif hasCheck n) = [GetJobInfo jid]"
  "filter isWait (cycleEvents eng src jid notif hasCheck n) = [SetTimeout 1000]"
  "filter isCheck (cycleEvents eng src jid notif hasCheck n) = (if hasCheck then [ThrowIfCanceled] else [])"
  "filter isReport (cycleEvents eng src jid notif hasCheck n) =
     ReportToOutputWindow (finishedWork src (latestStatus eng n)) #
     (if notif then [ReportToNotification (finishedWork src (latestStatus eng n))] else [])"
  by (simp_all add: cycleEvents_def)

lemma cycles_fetches:
  "filter isFetch (concat (map (cycleEvents eng src jid notif hasCheck) ns)) = replicate (length ns) (GetJobInfo jid)"
  by (simp add: filter_cycles[where h = "\<lambda>n. [GetJobInfo jid]"] cycle_filters map_replicate_const)

lemma cycles_waits:
  "filter isWait (concat (map (cycleEvents eng src jid notif hasCheck) ns)) = replicate (length ns) (SetTimeout 1000)"
  by (simp add: filter_cycles[where h = "\<lambda>n. [SetTimeout 1000]"] cycle_filters map_replicate_const)

lemma cycles_submissions:
  "filter isSubmission (concat (map (cycleEvents eng src jid notif hasCheck) ns)) = []"
  by (simp add: filter_cycles[where h = "\<lambda>n. []"] cycle_filters)

lemma cycles_checks:
  "filter isCheck (concat (map (cycleEvents eng src jid notif hasCheck) ns)) =
     (if hasCheck then replicate (length ns) ThrowIfCanceled else [])"
  by (simp add: filter_cycles[where h = "\<lambda>n. if hasCheck then [ThrowIfCanceled] else []"] cycle_filters
        map_replicate_const)

lemma cycles_reports:
  "filter isReport (concat (map (cycleEvents eng src jid notif hasCheck) ns)) =
     concat (map (\<lambda>n. ReportToOutputWindow (finishedWork src (latestStatus eng n)) #
                       (if notif then [ReportToNotification (finishedWork src (latestStatus eng n))] else [])) ns)"
  by (rule filter_cycles) (simp add: cycle_filters)

lemma cycle_paced:
  "pacedByTimer True (cycleEvents eng src jid notif hasCheck n @ rest) = pacedByTimer True rest"
  by (simp add: cycleEvents_def)

lemma cycles_paced:
  "pacedByTimer True (concat (map (cycleEvents eng src jid notif hasCheck) ns) @ rest) = pacedByTimer True rest"
  by (induction ns) (simp_all add: cycle_paced)

lemma cycle_last: "last (xs @ cycleEvents eng src jid notif hasCheck n) = SetTimeout 1000"
  by (simp add: cycleEvents_def)

lemma cycles_last:
  "ns \<noteq> [] \<Longrightarrow> last (xs @ concat (map (cycleEvents eng src jid notif hasCheck) ns)) = SetTimeout 1000"
proof (induction ns rule: rev_induct)
  case Nil
  then show ?case by simp
next
  case (snoc n ns)
  have "xs @ concat (map (cycleEvents eng src jid notif hasCheck) (ns @ [n]))
        = (xs @ concat (map (cycleEvents eng src jid notif hasCheck) ns)) @ cycleEvents eng src jid notif hasCheck n"
    by simp
  then show ?case
    by (simp only: cycle_last)
qed

text \<open>
  C1. When the \<open>k\<close>-th scripted status is the first with type \<open>EndOfJob\<close> (and the
  cancellation callback, if any, does not throw during these \<open>k\<close> passes), the poller
  returns: it submits the job once, as its first call, fetches the status exactly \<open>k\<close>
  times, always for the handle of that submission, leaves the loop after the fetch that
  gave \<open>EndOfJob\<close> and not before, and returns that handle.
\<close>

theorem startAndWaitForCopy_returns_after_k_fetches:
  assumes "firstEndOfJobAt eng k" and "checksPassBefore throwIfCanceled k"
  shows "\<exists>w'. startAndWaitForCopy eng src dst options notif throwIfCanceled initial
                 = Some (Inr (jobIdOfCopy eng), w') \<and>
              filter isSubmission (trace w') = [Copy src dst options] \<and>
              hd (trace w') = Copy src dst options \<and>
              filter isFetch (trace w') = replicate k (GetJobInfo (jobIdOfCopy eng)) \<and>
              occurrences isFetch w' = k \<and>
              fetches w' = k \<and>
              isEndOfJob (latestStatus eng (fetches w' - 1)) \<and>
              (\<forall>i < fetches w' - 1. \<not> isEndOfJob (latestStatus eng i))"
proof -
  have i: "checks initial = 0" "fetches initial = 0" "trace initial = []"
    by (simp_all add: initial_def)
  have e: "isEndOfJob (latestStatus eng (k - 1))" "\<forall>i < k - 1. \<not> isEndOfJob (latestStatus eng i)"
    using assms(1) by (auto simp: firstEndOfJobAt_iff)
  show ?thesis
    using e
    by (simp add: startAndWaitForCopy_run[OF assms i(1,2)] i(3) occurrences_def
          cycles_fetches cycles_submissions)
qed

lemma tenFiles_first: "firstEndOfJobAt tenFilesEngine 4"
  by (simp add: firstEndOfJobAt_def tenFilesEngine_def tenFilesScript_def isEndOfJob_def
        progressStatus_def endStatus_def upt_rec)

lemma neverCanceled_passes: "checksPassBefore (Some neverCanceled) k"
  by (simp add: checksPassBefore_iff checkPasses_def neverCanceled_def)

theorem startAndWaitForCopy_returns_after_k_fetches_witness:
  "firstEndOfJobAt tenFilesEngine 4 \<and> checksPassBefore (Some neverCanceled) 4 \<and>
   (\<exists>w'. startAndWaitForCopy tenFilesEngine exampleSource exampleDestination (copyOptions LocalBlob)
            True (Some neverCanceled) initial = Some (Inr (jobIdOfCopy tenFilesEngine), w') \<and>
          occurrences isFetch w' = 4 \<and> fetches w' = 4)"
  using startAndWaitForCopy_returns_after_k_fetches[OF tenFiles_first neverCanceled_passes,
      of exampleSource exampleDestination "copyOptions LocalBlob" True]
    tenFiles_first neverCanceled_passes
  by blast

lemma initial_fields: "checks initial = 0" "fetches initial = 0" "trace initial = []"
  by (simp_all add: initial_def)

lemma immediate_first: "firstEndOfJobAt immediateEngine 1"
  by (simp add: firstEndOfJobAt_def immediateEngine_def immediateScript_def isEndOfJob_def endStatus_def)

lemma noCallback_passes: "checksPassBefore noCallback k"
  by (simp add: checksPassBefore_iff checkPasses_def noCallback_def)

lemma immediate_counter: "finishedWork exampleSource (latestStatus immediateEngine 0) = 1"
  by (simp add: finishedWork_def exampleSource_def createAzCopyLocalDirectorySource_def
        immediateEngine_def immediateScript_def endStatus_def)

text \<open>
  C2, as stated, at a job whose first status is already \<open>EndOfJob\<close> (\<open>k = 1\<close>): the
  claim allows \<open>k - 1 = 0\<close> waits and none after the terminal status, but the timer is
  set after the terminal fetch.
\<close>

theorem startAndWaitForCopy_waits_after_EndOfJob:
  "firstEndOfJobAt immediateEngine 1 \<and>
   startAndWaitForCopy immediateEngine exampleSource exampleDestination (copyOptions LocalBlob)
       False noCallback initial
     = Some (Inr ''job-1'',
             \<lparr>checks = 0, fetches = 1,
              trace = [Copy exampleSource exampleDestination (copyOptions LocalBlob),
                       GetJobInfo ''job-1'', ReportToOutputWindow 1, SetTimeout 1000]\<rparr>)"
proof -
  have j: "jobIdOfCopy immediateEngine = ''job-1''"
    by (simp add: immediateEngine_def)
  have "startAndWaitForCopy immediateEngine exampleSource exampleDestination (copyOptions LocalBlob)
          False noCallback initial
        = Some (Inr (jobIdOfCopy immediateEngine),
                \<lparr>checks = (if noCallback = None then 0 else 1), fetches = 1,
                 trace = trace initial @ Copy exampleSource exampleDestination (copyOptions LocalBlob) #
                           concat (map (cycleEvents immediateEngine exampleSource (jobIdOfCopy immediateEngine)
                                          False (noCallback \<noteq> None)) [0..<1])\<rparr>)"
    by (rule startAndWaitForCopy_run[OF immediate_first noCallback_passes initial_fields(1,2)])
  also have "\<dots> = Some (Inr ''job-1'',
                         \<lparr>checks = 0, fetches = 1,
                          trace = [Copy exampleSource exampleDestination (copyOptions LocalBlob),
                                   GetJobInfo ''job-1'', ReportToOutputWindow 1, SetTimeout 1000]\<rparr>)"
    by (simp add: j initial_fields(3) cycleEvents_def immediate_counter noCallback_def)
  finally show ?thesis
    using immediate_first by simp
qed

text \<open>
  C2 (amended). The 1000 ms wait follows every status fetch, the terminal one included:
  a run that sees \<open>EndOfJob\<close> at poll \<open>k\<close> waits exactly \<open>k\<close> times, each time
  1000 ms, its last call is a wait, and every fetch after the first comes after a wait
  that followed the fetch before it.
\<close>

theorem startAndWaitForCopy_waits_after_every_fetch:
  assumes "firstEndOfJobAt eng k" and "checksPassBefore throwIfCanceled k"
  shows "\<exists>w'. startAndWaitForCopy eng src dst options notif throwIfCanceled initial
                 = Some (Inr (jobIdOfCopy eng), w') \<and>
              filter isWait (trace w') = replicate k (SetTimeout 1000) \<and>
              occurrences isWait w' = k \<and>
              occurrences isFetch w' = k \<and>
              last (trace w') = SetTimeout 1000 \<and>
              pacedByTimer True (trace w')"
proof -
  have "0 < k"
    using assms(1) by (simp add: firstEndOfJobAt_def)
  then have ne: "[0..<k] \<noteq> []"
    by simp
  have l: "last (Copy src dst options #
                 concat (map (cycleEvents eng src (jobIdOfCopy eng) notif (throwIfCanceled \<noteq> None)) [0..<k]))
           = SetTimeout 1000"
    using cycles_last[OF ne, of "[Copy src dst options]"] by simp
  have p: "pacedByTimer True
             (concat (map (cycleEvents eng src (jobIdOfCopy eng) notif (throwIfCanceled \<noteq> None)) [0..<k]))"
    using cycles_paced[of eng src "jobIdOfCopy eng" notif "throwIfCanceled \<noteq> None" "[0..<k]" "[]"] by simp
  show ?thesis
    using l p
    by (simp add: startAndWaitForCopy_run[OF assms initial_fields(1,2)] initial_fields(3) occurrences_def
          cycles_fetches cycles_waits)
qed

theorem startAndWaitForCopy_waits_after_every_fetch_witness:
  "firstEndOfJobAt tenFilesEngine 4 \<and> checksPassBefore (Some neverCanceled) 4 \<and>
   (\<exists>w'. startAndWaitForCopy tenFilesEngine exampleSource exampleDestination (copyOptions LocalBlob)
            True (Some neverCanceled) initial = Some (Inr (jobIdOfCopy tenFilesEngine), w') \<and>
          occurrences isWait w' = 4 \<and> last (trace w') = SetTimeout 1000 \<and> pacedByTimer True (trace w'))"
  using startAndWaitForCopy_waits_after_every_fetch[OF tenFiles_first neverCanceled_passes,
      of exampleSource exampleDestination "copyOptions LocalBlob" True]
    tenFiles_first neverCanceled_passes
  by blast

text \<open>
  C4. In a run that sees \<open>EndOfJob\<close> at poll \<open>k\<close>, the reports are, pass by pass, the
  report to the output window and (when a sink was supplied) the report to the
  notification, both with the counter selected from that pass's status:
  \<open>TransfersCompleted\<close> for a wildcard source, \<open>BytesOverWire\<close> otherwise, and 0 when
  the status or the selected counter is absent. The run returns the handle: no poll fails.
\<close>

theorem poll_reports_selected_counter:
  assumes "firstEndOfJobAt eng k" and "checksPassBefore throwIfCanceled k"
  shows "(\<exists>w'. startAndWaitForCopy eng src dst options notif throwIfCanceled initial
                  = Some (Inr (jobIdOfCopy eng), w') \<and>
               filter isReport (trace w') =
                 concat (map (\<lambda>n. ReportToOutputWindow (finishedWork src (latestStatus eng n)) #
                                   (if notif then [ReportToNotification (finishedWork src (latestStatus eng n))]
                                    else []))
                             [0..<k])) \<and>
         finishedWork src None = 0 \<and>
         (\<forall>s. finishedWork src (Some s) =
                (if useWildCard src
                 then (case TransfersCompleted s of None \<Rightarrow> 0 | Some c \<Rightarrow> c)
                 else (case BytesOverWire s of None \<Rightarrow> 0 | Some c \<Rightarrow> c)))"
  by (simp add: startAndWaitForCopy_run[OF assms initial_fields(1,2)] initial_fields(3)
        cycles_reports finishedWork_def split: option.splits)

lemma tenFiles_counters:
  "finishedWork exampleSource (latestStatus tenFilesEngine 0) = 0"
  "finishedWork exampleSource (latestStatus tenFilesEngine (Suc 0)) = 3"
  "finishedWork exampleSource (latestStatus tenFilesEngine 2) = 7"
  "finishedWork exampleSource (latestStatus tenFilesEngine 3) = 10"
  by (simp_all add: finishedWork_def exampleSource_def createAzCopyLocalDirectorySource_def
        tenFilesEngine_def tenFilesScript_def progressStatus_def endStatus_def)

lemma upt_4: "[0..<4] = [0, Suc 0, 2, 3]"
  by (simp add: upt_rec)

lemma gappy_first: "firstEndOfJobAt gappyEngine 3"
  by (simp add: firstEndOfJobAt_def gappyEngine_def gappyScript_def isEndOfJob_def endStatus_def upt_rec)

lemma gappy_counters:
  "finishedWork (createAzCopyLocalSource ''/home/me/a.bin'') (latestStatus gappyEngine 0) = 0"
  "finishedWork (createAzCopyLocalSource ''/home/me/a.bin'') (latestStatus gappyEngine (Suc 0)) = 0"
  "finishedWork (createAzCopyLocalSource ''/home/me/a.bin'') (latestStatus gappyEngine 2) = 20480"
  by (simp_all add: finishedWork_def createAzCopyLocalSource_def gappyEngine_def gappyScript_def endStatus_def)

lemma upt_3: "[0..<3] = [0, Suc 0, 2]"
  by (simp add: upt_rec)

theorem poll_reports_selected_counter_witness:
  "firstEndOfJobAt tenFilesEngine 4 \<and> checksPassBefore (Some neverCanceled) 4 \<and>
   (\<exists>w'. startAndWaitForCopy tenFilesEngine exampleSource exampleDestination (copyOptions LocalBlob)
            True (Some neverCanceled) initial = Some (Inr (jobIdOfCopy tenFilesEngine), w') \<and>
          filter isReport (trace w') =
            [ReportToOutputWindow 0, ReportToNotification 0, ReportToOutputWindow 3, ReportToNotification 3,
             ReportToOutputWindow 7, ReportToNotification 7, ReportToOutputWindow 10, ReportToNotification 10]) \<and>
   firstEndOfJobAt gappyEngine 3 \<and> checksPassBefore noCallback 3 \<and>
   (\<exists>w'. startAndWaitForCopy gappyEngine (createAzCopyLocalSource ''/home/me/a.bin'') exampleDestination
            (copyOptions LocalBlob) False noCallback initial = Some (Inr (jobIdOfCopy gappyEngine), w') \<and>
          filter isReport (trace w') =
            [ReportToOutputWindow 0, ReportToOutputWindow 0, ReportToOutputWindow 20480])"
proof -
  have a: "\<exists>w'. startAndWaitForCopy tenFilesEngine exampleSource exampleDestination (copyOptions LocalBlob)
            True (Some neverCanceled) initial = Some (Inr (jobIdOfCopy tenFilesEngine), w') \<and>
          filter isReport (trace w') =
            [ReportToOutputWindow 0, ReportToNotification 0, ReportToOutputWindow 3, ReportToNotification 3,
             ReportToOutputWindow 7, ReportToNotification 7, ReportToOutputWindow 10, ReportToNotification 10]"
    using poll_reports_selected_counter[OF tenFiles_first neverCanceled_passes,
        of exampleSource exampleDestination "copyOptions LocalBlob" True]
    by (simp add: upt_4 tenFiles_counters)
  have b: "\<exists>w'. startAndWaitForCopy gappyEngine (createAzCopyLocalSource ''/home/me/a.bin'') exampleDestination
            (copyOptions LocalBlob) False noCallback initial = Some (Inr (jobIdOfCopy gappyEngine), w') \<and>
          filter isReport (trace w') =
            [ReportToOutputWindow 0, ReportToOutputWindow 0, ReportToOutputWindow 20480]"
    using poll_reports_selected_counter[OF gappy_first noCallback_passes,
        of "createAzCopyLocalSource ''/home/me/a.bin''" exampleDestination "copyOptions LocalBlob" False]
    by (simp add: upt_3 gappy_counters)
  show ?thesis
    by (intro conjI tenFiles_first neverCanceled_passes a gappy_first noCallback_passes b)
qed

section \<open>The facade\<close>

lemma validateAzCopyInstalled_present:
  "azCopyOnPath eng \<Longrightarrow>
   validateAzCopyInstalled eng w = (True, emit (ExecuteCommand (azCopyExePath eng) ''--version'') w)"
  by (simp add: validateAzCopyInstalled_def callWithTelemetryAndErrorHandling_def validateCallback_def
        azCopyInstalled_def)

lemma validateAzCopyInstalled_missing:
  "\<not> azCopyOnPath eng \<Longrightarrow>
   validateAzCopyInstalled eng w =
     (False,
      w\<lparr>trace := trace w @
           ExecuteCommand (azCopyExePath eng) ''--version'' #
           ShowWarningMessage (''AzCopy is required for multiple file transfers and transfers >''
                                 @ maxUploadDownloadSizeMB eng @ ''MB.'') True #
           (case promptAnswer eng of
              PickedDownload \<Rightarrow>
                [OpenUrl ''https://docs.microsoft.com/en-us/azure/storage/common/storage-use-azcopy-v10'',
                 ShowWarningMessage ''Be sure to add \"azcopy\" to your path after downloading.'' False]
            | PickedNothing \<Rightarrow> []
            | PromptThrew \<Rightarrow> [])\<rparr>)"
  by (cases "promptAnswer eng")
     (simp_all add: validateAzCopyInstalled_def callWithTelemetryAndErrorHandling_def validateCallback_def
        azCopyInstalled_def emit_def Let_def)

lemma probed_fields:
  "checks (emit e initial) = 0" "fetches (emit e initial) = 0" "trace (emit e initial) = [e]"
  by (simp_all add: emit_def initial_def)

lemma azCopyTransfer_run:
  assumes "azCopyOnPath eng" and "firstEndOfJobAt eng k" and "checksPassBefore throwIfCanceled k"
  shows "azCopyTransfer eng src dst ft notif throwIfCanceled initial =
         Some (if latestStatus eng k = None \<or> JobStatus (the (latestStatus eng k)) = Some ''Failed''
               then Inl (Error (transferFailedMessage (latestStatus eng k))) else Inr (),
               \<lparr>checks = (if throwIfCanceled = None then 0 else k),
                fetches = Suc k,
                trace = ExecuteCommand (azCopyExePath eng) ''--version'' # Copy src dst (copyOptions ft) #
                          concat (map (cycleEvents eng src (jobIdOfCopy eng) notif (throwIfCanceled \<noteq> None)) [0..<k])
                          @ [GetJobInfo (jobIdOfCopy eng)]\<rparr>)"
  unfolding azCopyTransfer_def validateAzCopyInstalled_present[OF assms(1)] prod.case if_True
    startAndWaitForCopy_run[OF assms(2,3) probed_fields(1,2)] option.case sum.case probed_fields(3)
  by (simp add: getJobInfo_def emit_def localize_def del: upt_Suc)

lemma azCopyTransfer_part_001_run:
  assumes "azCopyOnPath eng" and "firstEndOfJobAt eng k" and "checksPassBefore throwIfCanceled k"
  shows "azCopyTransfer_part_001 eng src dst notif throwIfCanceled initial =
         Some (if latestStatus eng k = None \<or> JobStatus (the (latestStatus eng k)) = Some ''Failed''
               then Inl (Error (transferFailedMessage (latestStatus eng k))) else Inr (),
               \<lparr>checks = (if throwIfCanceled = None then 0 else k),
                fetches = Suc k,
                trace = ExecuteCommand (azCopyExePath eng) ''--version'' # Copy src dst copyOptions_part_001 #
                          concat (map (cycleEvents eng src (jobIdOfCopy eng) notif (throwIfCanceled \<noteq> None)) [0..<k])
                          @ [GetJobInfo (jobIdOfCopy eng)]\<rparr>)"
  unfolding azCopyTransfer_part_001_def validateAzCopyInstalled_present[OF assms(1)] prod.case if_True
    startAndWaitForCopy_run[OF assms(2,3) probed_fields(1,2)] option.case sum.case probed_fields(3)
  by (simp add: getJobInfo_def emit_def localize_def del: upt_Suc)

lemma transferFailedMessage_cases:
  "transferFailedMessage None = ''AzCopy Transfer Failed''"
  "ErrorMsg s = None \<Longrightarrow> transferFailedMessage (Some s) = ''AzCopy Transfer Failed''"
  "ErrorMsg s = Some m \<Longrightarrow> transferFailedMessage (Some s) =
     (if m = [] then ''AzCopy Transfer Failed'' else ''AzCopy Transfer Failed: '' @ m)"
  "ErrorMsg s = Some m \<Longrightarrow> sublist m (transferFailedMessage (Some s))"
proof -
  show "transferFailedMessage None = ''AzCopy Transfer Failed''"
    by (simp add: transferFailedMessage_def)
  show "ErrorMsg s = None \<Longrightarrow> transferFailedMessage (Some s) = ''AzCopy Transfer Failed''"
    by (simp add: transferFailedMessage_def)
  show "ErrorMsg s = Some m \<Longrightarrow> transferFailedMessage (Some s) =
     (if m = [] then ''AzCopy Transfer Failed'' else ''AzCopy Transfer Failed: '' @ m)"
    by (simp add: transferFailedMessage_def)
  show "ErrorMsg s = Some m \<Longrightarrow> sublist m (transferFailedMessage (Some s))"
  proof (cases "m = []")
    case True
    then show ?thesis by simp
  next
    case False
    assume "ErrorMsg s = Some m"
    then have "transferFailedMessage (Some s) = ''AzCopy Transfer Failed: '' @ m @ []"
      using False by (simp add: transferFailedMessage_def)
    then show ?thesis
      unfolding sublist_def by blast
  qed
qed

text \<open>
  C5. When the engine is installed and the poller returns after \<open>k\<close> fetches, the facade
  (in both variants) fetches the status once more, for the returned handle, and decides
  on that status, the \<open>(k+1)\<close>-th of the script: if it is absent or its \<open>JobStatus\<close> is
  \<open>Failed\<close>, an \<open>Error\<close> is thrown whose message is \<open>AzCopy Transfer Failed\<close>, followed
  by \<open>: \<close> and the engine's \<open>ErrorMsg\<close> when there is a non-empty one (so the engine's
  message is always part of the text); any other status gives a normal return.
\<close>

theorem azCopyTransfer_classifies_final_status:
  assumes "azCopyOnPath eng" and "firstEndOfJobAt eng k" and "checksPassBefore throwIfCanceled k"
  shows "\<exists>r w'. azCopyTransfer eng src dst ft notif throwIfCanceled initial = Some (r, w') \<and>
           (\<exists>w''. azCopyTransfer_part_001 eng src dst notif throwIfCanceled initial = Some (r, w'') \<and>
                  fetches w'' = Suc k \<and> last (trace w'') = GetJobInfo (jobIdOfCopy eng)) \<and>
           fetches w' = Suc k \<and> occurrences isFetch w' = Suc k \<and>
           last (trace w') = GetJobInfo (jobIdOfCopy eng) \<and>
           r = (case latestStatus eng k of
                  None \<Rightarrow> Inl (Error ''AzCopy Transfer Failed'')
                | Some s \<Rightarrow>
                    if JobStatus s = Some ''Failed''
                    then Inl (Error (case ErrorMsg s of
                                       None \<Rightarrow> ''AzCopy Transfer Failed''
                                     | Some m \<Rightarrow> if m = [] then ''AzCopy Transfer Failed''
                                                else ''AzCopy Transfer Failed: '' @ m))
                    else Inr ()) \<and>
           (\<forall>s m. latestStatus eng k = Some s \<and> JobStatus s = Some ''Failed'' \<and> ErrorMsg s = Some m \<longrightarrow>
                  (\<exists>msg. r = Inl (Error msg) \<and> sublist m msg))"
proof -
  let ?r = "if latestStatus eng k = None \<or> JobStatus (the (latestStatus eng k)) = Some ''Failed''
            then Inl (Error (transferFailedMessage (latestStatus eng k))) else Inr ()"
  let ?cs = "concat (map (cycleEvents eng src (jobIdOfCopy eng) notif (throwIfCanceled \<noteq> None)) [0..<k])"
  let ?w = "\<lparr>checks = (if throwIfCanceled = None then 0 else k), fetches = Suc k,
             trace = ExecuteCommand (azCopyExePath eng) ''--version'' # Copy src dst (copyOptions ft) #
                       ?cs @ [GetJobInfo (jobIdOfCopy eng)]\<rparr>"
  have a: "azCopyTransfer eng src dst ft notif throwIfCanceled initial = Some (?r, ?w)"
    by (rule azCopyTransfer_run[OF assms])
  have b: "\<exists>w''. azCopyTransfer_part_001 eng src dst notif throwIfCanceled initial = Some (?r, w'') \<and>
                 fetches w'' = Suc k \<and> last (trace w'') = GetJobInfo (jobIdOfCopy eng)"
    by (simp add: azCopyTransfer_part_001_run[OF assms] del: upt_Suc)
  have c: "fetches ?w = Suc k"
    by simp
  have d: "occurrences isFetch ?w = Suc k"
    by (simp add: occurrences_def cycles_fetches del: upt_Suc)
  have c': "last (trace ?w) = GetJobInfo (jobIdOfCopy eng)"
    by simp
  have e: "?r = (case latestStatus eng k of
                  None \<Rightarrow> Inl (Error ''AzCopy Transfer Failed'')
                | Some s \<Rightarrow>
                    if JobStatus s = Some ''Failed''
                    then Inl (Error (case ErrorMsg s of
                                       None \<Rightarrow> ''AzCopy Transfer Failed''
                                     | Some m \<Rightarrow> if m = [] then ''AzCopy Transfer Failed''
                                                else ''AzCopy Transfer Failed: '' @ m))
                    else Inr ())"
    by (simp add: transferFailedMessage_def split: option.splits)
  have f: "\<forall>s m. latestStatus eng k = Some s \<and> JobStatus s = Some ''Failed'' \<and> ErrorMsg s = Some m \<longrightarrow>
                  (\<exists>msg. ?r = Inl (Error msg) \<and> sublist m msg)"
  proof (intro allI impI)
    fix s m
    assume h: "latestStatus eng k = Some s \<and> JobStatus s = Some ''Failed'' \<and> ErrorMsg s = Some m"
    then have r: "?r = Inl (Error (transferFailedMessage (Some s)))"
      by simp
    have "sublist m (transferFailedMessage (Some s))"
      using h transferFailedMessage_cases(4) by blast
    then show "\<exists>msg. ?r = Inl (Error msg) \<and> sublist m msg"
      unfolding r by blast
  qed
  show ?thesis
    by (rule exI[of _ ?r], rule exI[of _ ?w]) (insert a b c d c' e f, intro conjI; assumption)
qed

lemma failed_first: "firstEndOfJobAt failedEngine 2"
  by (simp add: firstEndOfJobAt_def failedEngine_def failedScript_def isEndOfJob_def
        progressStatus_def endStatus_def upt_rec)

theorem azCopyTransfer_classifies_final_status_witness:
  "azCopyOnPath failedEngine \<and> firstEndOfJobAt failedEngine 2 \<and> checksPassBefore noCallback 2 \<and>
   (\<exists>w'. azCopyTransfer failedEngine exampleSource exampleDestination LocalBlob False noCallback initial
            = Some (Inl (Error ''AzCopy Transfer Failed: disk quota exceeded''), w')) \<and>
   azCopyOnPath tenFilesEngine \<and> firstEndOfJobAt tenFilesEngine 4 \<and>
   (\<exists>w'. azCopyTransfer tenFilesEngine exampleSource exampleDestination LocalBlob False noCallback initial
            = Some (Inr (), w'))"
proof -
  have h1: "azCopyOnPath failedEngine"
    by (simp add: failedEngine_def)
  have h2: "latestStatus failedEngine 2 = Some (endStatus ''Failed'' (Some ''disk quota exceeded'') 0)"
    by (simp add: failedEngine_def failedScript_def)
  have g1: "azCopyOnPath tenFilesEngine"
    by (simp add: tenFilesEngine_def)
  have g2: "latestStatus tenFilesEngine 4 = Some (endStatus ''Completed'' None 10)"
    by (simp add: tenFilesEngine_def tenFilesScript_def)
  have a: "\<exists>w'. azCopyTransfer failedEngine exampleSource exampleDestination LocalBlob False noCallback initial
            = Some (Inl (Error ''AzCopy Transfer Failed: disk quota exceeded''), w')"
    using azCopyTransfer_classifies_final_status[OF h1 failed_first noCallback_passes,
        of exampleSource exampleDestination LocalBlob False]
    unfolding h2 apply (simp add: endStatus_def) apply (elim exE conjE) apply (rule exI) apply assumption done
  have b: "\<exists>w'. azCopyTransfer tenFilesEngine exampleSource exampleDestination LocalBlob False noCallback initial
            = Some (Inr (), w')"
    using azCopyTransfer_classifies_final_status[OF g1 tenFiles_first noCallback_passes,
        of exampleSource exampleDestination LocalBlob False]
    unfolding g2 apply (simp add: endStatus_def) apply (elim exE conjE) apply (rule exI) apply assumption done
  show ?thesis
    by (intro conjI h1 failed_first noCallback_passes a g1 tenFiles_first b)
qed

text \<open>
  C6. When the version probe fails, whatever the answer to the download prompt (the
  download item, nothing, or a dismissed dialog that throws), the facade returns normally
  and has made no \<open>copy\<close> call, no \<open>getJobInfo\<close> call and no cancellation check.
\<close>

theorem azCopyTransfer_aborts_silently_without_engine:
  assumes "\<not> azCopyOnPath eng"
  shows "\<exists>w'. azCopyTransfer (eng\<lparr>promptAnswer := answer\<rparr>) src dst ft notif throwIfCanceled initial
                 = Some (Inr (), w') \<and>
              filter isSubmission (trace w') = [] \<and>
              filter isFetch (trace w') = [] \<and>
              filter isCheck (trace w') = [] \<and>
              fetches w' = 0 \<and> checks w' = 0 \<and>
              hd (trace w') = ExecuteCommand (azCopyExePath eng) ''--version''"
proof -
  have m: "\<not> azCopyOnPath (eng\<lparr>promptAnswer := answer\<rparr>)"
    using assms by simp
  show ?thesis
    unfolding azCopyTransfer_def validateAzCopyInstalled_missing[OF m]
    by (cases answer) (simp_all add: initial_def)
qed

theorem azCopyTransfer_aborts_silently_without_engine_witness:
  "\<not> azCopyOnPath missingEngine \<and>
   (\<exists>w'. azCopyTransfer (missingEngine\<lparr>promptAnswer := PromptThrew\<rparr>) exampleSource exampleDestination
            LocalBlob True (Some neverCanceled) initial = Some (Inr (), w') \<and>
          filter isSubmission (trace w') = [] \<and> filter isFetch (trace w') = [])"
proof -
  have h: "\<not> azCopyOnPath missingEngine"
    by (simp add: missingEngine_def)
  show ?thesis
    using h azCopyTransfer_aborts_silently_without_engine[OF h, of PromptThrew exampleSource
        exampleDestination LocalBlob True "Some neverCanceled"]
    by blast
qed

section \<open>Cancellation\<close>

lemma cycle_checks_and_fetches:
  "filter (\<lambda>ev. isCheck ev \<or> isFetch ev) (cycleEvents eng src jid notif True n) = [ThrowIfCanceled, GetJobInfo jid]"
  by (simp add: cycleEvents_def)

lemma cycles_checks_and_fetches:
  "filter (\<lambda>ev. isCheck ev \<or> isFetch ev) (concat (map (cycleEvents eng src jid notif True) ns))
     = concat (replicate (length ns) [ThrowIfCanceled, GetJobInfo jid])"
  by (simp add: filter_cycles[where h = "\<lambda>n. [ThrowIfCanceled, GetJobInfo jid]"]
        cycle_checks_and_fetches concat_const)

lemma azCopyTransfer_canceled:
  assumes "azCopyOnPath eng" and "firstEndOfJobAt eng k" and "j < k"
    and "checksPassBefore (Some chk) j" and "chk j = Some e"
  shows "azCopyTransfer eng src dst ft notif (Some chk) initial =
         Some (Inl (Thrown e),
               \<lparr>checks = Suc j,
                fetches = j,
                trace = ExecuteCommand (azCopyExePath eng) ''--version'' # Copy src dst (copyOptions ft) #
                          concat (map (cycleEvents eng src (jobIdOfCopy eng) notif True) [0..<j])
                          @ [ThrowIfCanceled]\<rparr>)"
  unfolding azCopyTransfer_def validateAzCopyInstalled_present[OF assms(1)] prod.case if_True
    startAndWaitForCopy_canceled[OF assms(2,3,4,5) probed_fields(1,2)] option.case sum.case probed_fields(3)
  by simp

text \<open>
  C3. When the cancellation callback throws \<open>e\<close> on pass \<open>j\<close>, before the pass \<open>k\<close> that
  would see \<open>EndOfJob\<close>, the poller ends with exactly \<open>e\<close> after \<open>j\<close> invocations of the
  callback and \<open>j - 1\<close> status fetches; the throwing invocation is its last call, and
  callback and fetch alternate, callback first. The facade (engine installed) ends with
  the same \<open>e\<close> and makes no further fetch.
\<close>

theorem cancellation_propagates_unmodified:
  assumes "firstEndOfJobAt eng k" and "0 < j" and "j < k"
    and "checksPassBefore (Some chk) (j - 1)" and "chk (j - 1) = Some e"
  shows "(\<exists>w'. startAndWaitForCopy eng src dst options notif (Some chk) initial = Some (Inl (Thrown e), w') \<and>
               checks w' = j \<and> occurrences isCheck w' = j \<and>
               fetches w' = j - 1 \<and> occurrences isFetch w' = j - 1 \<and>
               last (trace w') = ThrowIfCanceled \<and>
               filter (\<lambda>ev. isCheck ev \<or> isFetch ev) (trace w')
                 = concat (replicate (j - 1) [ThrowIfCanceled, GetJobInfo (jobIdOfCopy eng)]) @ [ThrowIfCanceled]) \<and>
         (azCopyOnPath eng \<longrightarrow>
            (\<exists>w'. azCopyTransfer eng src dst ft notif (Some chk) initial = Some (Inl (Thrown e), w') \<and>
                  checks w' = j \<and> occurrences isCheck w' = j \<and>
                  fetches w' = j - 1 \<and> occurrences isFetch w' = j - 1 \<and>
                  last (trace w') = ThrowIfCanceled))"
proof -
  obtain i where j: "j = Suc i"
    using assms(2) by (cases j) simp_all
  have lt: "i < k"
    using assms(3) j by simp
  have p: "checksPassBefore (Some chk) i" and t: "chk i = Some e"
    using assms(4,5) j by simp_all
  have poller: "\<exists>w'. startAndWaitForCopy eng src dst options notif (Some chk) initial = Some (Inl (Thrown e), w') \<and>
               checks w' = j \<and> occurrences isCheck w' = j \<and>
               fetches w' = j - 1 \<and> occurrences isFetch w' = j - 1 \<and>
               last (trace w') = ThrowIfCanceled \<and>
               filter (\<lambda>ev. isCheck ev \<or> isFetch ev) (trace w')
                 = concat (replicate (j - 1) [ThrowIfCanceled, GetJobInfo (jobIdOfCopy eng)]) @ [ThrowIfCanceled]"
    by (simp add: startAndWaitForCopy_canceled[OF assms(1) lt p t initial_fields(1,2)] initial_fields(3) j
          occurrences_def cycles_checks cycles_fetches cycles_checks_and_fetches del: upt_Suc)
  have facade: "azCopyOnPath eng \<Longrightarrow>
            (\<exists>w'. azCopyTransfer eng src dst ft notif (Some chk) initial = Some (Inl (Thrown e), w') \<and>
                  checks w' = j \<and> occurrences isCheck w' = j \<and>
                  fetches w' = j - 1 \<and> occurrences isFetch w' = j - 1 \<and>
                  last (trace w') = ThrowIfCanceled)"
    by (simp add: azCopyTransfer_canceled[OF _ assms(1) lt p t] j
          occurrences_def cycles_checks cycles_fetches del: upt_Suc)
  show ?thesis
    using poller facade by (intro conjI impI)
qed

lemma cancelOnSecondCheck_passes: "checksPassBefore (Some cancelOnSecondCheck) (2 - 1)"
  by (simp add: checksPassBefore_def checkPasses_def cancelOnSecondCheck_def)

theorem cancellation_propagates_unmodified_witness:
  "firstEndOfJobAt tenFilesEngine 4 \<and> (0::nat) < 2 \<and> (2::nat) < 4 \<and>
   checksPassBefore (Some cancelOnSecondCheck) (2 - 1) \<and>
   cancelOnSecondCheck (2 - 1) = Some ''UserCancelledError'' \<and> azCopyOnPath tenFilesEngine \<and>
   (\<exists>w'. startAndWaitForCopy tenFilesEngine exampleSource exampleDestination (copyOptions LocalFile) True
            (Some cancelOnSecondCheck) initial = Some (Inl (Thrown ''UserCancelledError''), w') \<and>
          checks w' = 2 \<and> fetches w' = 2 - 1) \<and>
   (\<exists>w'. azCopyTransfer tenFilesEngine exampleSource exampleDestination LocalFile True
            (Some cancelOnSecondCheck) initial = Some (Inl (Thrown ''UserCancelledError''), w') \<and>
          checks w' = 2 \<and> fetches w' = 2 - 1)"
proof -
  have h2: "(0::nat) < 2" and h3: "(2::nat) < 4"
    by simp_all
  have h5: "cancelOnSecondCheck (2 - 1) = Some ''UserCancelledError''"
    by (simp add: cancelOnSecondCheck_def)
  have h6: "azCopyOnPath tenFilesEngine"
    by (simp add: tenFilesEngine_def)
  show ?thesis
    using cancellation_propagates_unmodified[OF tenFiles_first h2 h3 cancelOnSecondCheck_passes h5,
        of exampleSource exampleDestination "copyOptions LocalFile" True LocalFile]
      tenFiles_first h2 h3 cancelOnSecondCheck_passes h5 h6
    by blast
qed

section \<open>Only runs that see EndOfJob return\<close>

lemmas pollLoop_induct = pollLoop.raw_induct[rotated 1, consumes 1, case_names step]

lemma pollLoop_returns_only_if:
  assumes "pollLoop eng src jid notif throwIfCanceled status w = Some y"
  shows "\<forall>j w'. y = (Inr j, w') \<longrightarrow> \<not> isEndOfJob status \<longrightarrow>
           (\<exists>m. (\<forall>i<m. \<not> isEndOfJob (latestStatus eng (fetches w + i))) \<and>
                isEndOfJob (latestStatus eng (fetches w + m)) \<and>
                (\<forall>i\<le>m. checkPasses throwIfCanceled (checks w + i)))"
  using assms
proof (induction rule: pollLoop_induct)
  case (step pl eng src jid notif throwIfCanceled status w y)
  show ?case
  proof (intro allI impI)
    fix j w'
    assume y: "y = (Inr j, w')" and ne: "\<not> isEndOfJob status"
    obtain c w1 where inv: "invokeThrowIfCanceled throwIfCanceled w = (c, w1)"
      by (cases "invokeThrowIfCanceled throwIfCanceled w") blast
    obtain st w2 where get: "getJobInfo eng jid w1 = (st, w2)"
      by (cases "getJobInfo eng jid w1") blast
    let ?f = "finishedWork src st"
    let ?w3 = "emit (ReportToOutputWindow ?f) w2"
    let ?w4 = "if notif then emit (ReportToNotification ?f) ?w3 else ?w3"
    let ?w5 = "emit (SetTimeout 1000) ?w4"
    have c: "c = None"
      using step.hyps(1) ne y inv by (cases c) simp_all
    have rec: "pl eng src jid notif throwIfCanceled st ?w5 = Some y"
      using step.hyps(1) ne inv get c by (simp add: Let_def)
    have w1: "fetches w1 = fetches w"
      "checks w1 = (if throwIfCanceled = None then checks w else Suc (checks w))"
      using inv by (cases throwIfCanceled; auto simp: invokeThrowIfCanceled_def emit_def)+
    have pass: "checkPasses throwIfCanceled (checks w)"
      using inv c by (cases throwIfCanceled) (auto simp: invokeThrowIfCanceled_def checkPasses_def)
    have st: "st = latestStatus eng (fetches w)"
      using get w1(1) by (auto simp: getJobInfo_def)
    have w2: "fetches w2 = Suc (fetches w)" "checks w2 = checks w1"
      using get w1(1) by (auto simp: getJobInfo_def emit_def)
    have w5: "fetches ?w5 = Suc (fetches w)"
      "checks ?w5 = (if throwIfCanceled = None then checks w else Suc (checks w))"
      using w2 w1(2) by (simp_all add: emit_def)
    show "\<exists>m. (\<forall>i<m. \<not> isEndOfJob (latestStatus eng (fetches w + i))) \<and>
              isEndOfJob (latestStatus eng (fetches w + m)) \<and>
              (\<forall>i\<le>m. checkPasses throwIfCanceled (checks w + i))"
    proof (cases "isEndOfJob st")
      case True
      then show ?thesis
        using st pass by (intro exI[of _ 0]) simp
    next
      case False
      obtain m where
        a: "\<forall>i<m. \<not> isEndOfJob (latestStatus eng (fetches ?w5 + i))" and
        b: "isEndOfJob (latestStatus eng (fetches ?w5 + m))" and
        d: "\<forall>i\<le>m. checkPasses throwIfCanceled (checks ?w5 + i)"
        using step.IH[OF rec] y False by blast
      have a': "\<forall>i<Suc m. \<not> isEndOfJob (latestStatus eng (fetches w + i))"
      proof (intro allI impI)
        fix i assume "i < Suc m"
        then show "\<not> isEndOfJob (latestStatus eng (fetches w + i))"
          using a False st unfolding w5(1) by (cases i) auto
      qed
      have b': "isEndOfJob (latestStatus eng (fetches w + Suc m))"
        using b unfolding w5(1) by simp
      have d': "\<forall>i\<le>Suc m. checkPasses throwIfCanceled (checks w + i)"
      proof (intro allI impI)
        fix i assume i: "i \<le> Suc m"
        show "checkPasses throwIfCanceled (checks w + i)"
        proof (cases i)
          case 0
          then show ?thesis using pass by simp
        next
          case (Suc i')
          then have "checkPasses throwIfCanceled (checks ?w5 + i')"
            using d i by simp
          then show ?thesis
            unfolding w5(2) using Suc by (cases throwIfCanceled) (simp_all add: checkPasses_def)
        qed
      qed
      show ?thesis
        using a' b' d' by blast
    qed
  qed
qed

lemma startAndWaitForCopy_returns_only_if:
  assumes "startAndWaitForCopy eng src dst options notif throwIfCanceled initial = Some (Inr jid, w')"
  shows "\<exists>k. firstEndOfJobAt eng k \<and> checksPassBefore throwIfCanceled k"
proof -
  have n: "\<not> isEndOfJob None"
    by (simp add: isEndOfJob_def)
  have "pollLoop eng src (jobIdOfCopy eng) notif throwIfCanceled None (emit (Copy src dst options) initial)
          = Some (Inr jid, w')"
    using assms by (simp add: startAndWaitForCopy_def)
  from pollLoop_returns_only_if[OF this] n
  obtain m where a: "\<forall>i<m. \<not> isEndOfJob (latestStatus eng i)" and b: "isEndOfJob (latestStatus eng m)"
    and d: "\<forall>i\<le>m. checkPasses throwIfCanceled i"
    by (auto simp: probed_fields)
  have "firstEndOfJobAt eng (Suc m)"
    using a b by (auto simp: firstEndOfJobAt_iff)
  moreover have "checksPassBefore throwIfCanceled (Suc m)"
    using d by (simp add: checksPassBefore_iff less_Suc_eq_le)
  ultimately show ?thesis by blast
qed

lemma terminal_reports:
  "ReportToOutputWindow (finishedWork src (latestStatus eng m))
     \<in> set (concat (map (cycleEvents eng src jid notif hasCheck) [0..<Suc m]))"
  "notif \<Longrightarrow> ReportToNotification (finishedWork src (latestStatus eng m))
     \<in> set (concat (map (cycleEvents eng src jid notif hasCheck) [0..<Suc m]))"
  by (simp_all add: cycleEvents_def)

text \<open>
  C10, as stated, at an invocation without a cancellation callback: the poller returns
  after one fetch and the reports, and has performed no cancellation check.
\<close>

theorem startAndWaitForCopy_zero_checks_without_callback:
  "startAndWaitForCopy immediateEngine exampleSource exampleDestination (copyOptions LocalFile)
       True noCallback initial
     = Some (Inr ''job-1'',
             \<lparr>checks = 0, fetches = 1,
              trace = [Copy exampleSource exampleDestination (copyOptions LocalFile),
                       GetJobInfo ''job-1'', ReportToOutputWindow 1, ReportToNotification 1,
                       SetTimeout 1000]\<rparr>)"
proof -
  have j: "jobIdOfCopy immediateEngine = ''job-1''"
    by (simp add: immediateEngine_def)
  have "startAndWaitForCopy immediateEngine exampleSource exampleDestination (copyOptions LocalFile)
          True noCallback initial
        = Some (Inr (jobIdOfCopy immediateEngine),
                \<lparr>checks = (if noCallback = None then 0 else 1), fetches = 1,
                 trace = trace initial @ Copy exampleSource exampleDestination (copyOptions LocalFile) #
                           concat (map (cycleEvents immediateEngine exampleSource (jobIdOfCopy immediateEngine)
                                          True (noCallback \<noteq> None)) [0..<1])\<rparr>)"
    by (rule startAndWaitForCopy_run[OF immediate_first noCallback_passes initial_fields(1,2)])
  also have "\<dots> = Some (Inr ''job-1'',
                         \<lparr>checks = 0, fetches = 1,
                          trace = [Copy exampleSource exampleDestination (copyOptions LocalFile),
                                   GetJobInfo ''job-1'', ReportToOutputWindow 1, ReportToNotification 1,
                                   SetTimeout 1000]\<rparr>)"
    by (simp add: j initial_fields(3) cycleEvents_def immediate_counter noCallback_def)
  finally show ?thesis .
qed

text \<open>
  C10 (amended). Whenever the poller returns the handle, it has fetched the status at
  least once, has invoked the cancellation callback once per fetch if a callback was
  supplied (and not at all otherwise), the last fetched status has type \<open>EndOfJob\<close>, and
  the counter of that status was reported to the output window, and to the notification
  when a sink was supplied. In particular, when the first status is already \<open>EndOfJob\<close>
  the run is: submission, the callback (if supplied), one fetch, the report(s), one timer.
\<close>

theorem loop_body_runs_at_least_once:
  "(startAndWaitForCopy eng src dst options notif throwIfCanceled initial = Some (Inr jid, w') \<longrightarrow>
      jid = jobIdOfCopy eng \<and>
      1 \<le> occurrences isFetch w' \<and> fetches w' = occurrences isFetch w' \<and>
      occurrences isCheck w' = (if throwIfCanceled = None then 0 else occurrences isFetch w') \<and>
      isEndOfJob (latestStatus eng (fetches w' - 1)) \<and>
      ReportToOutputWindow (finishedWork src (latestStatus eng (fetches w' - 1))) \<in> set (trace w') \<and>
      (notif \<longrightarrow> ReportToNotification (finishedWork src (latestStatus eng (fetches w' - 1))) \<in> set (trace w'))) \<and>
   (isEndOfJob (latestStatus eng 0) \<and> checkPasses throwIfCanceled 0 \<longrightarrow>
      startAndWaitForCopy eng src dst options notif throwIfCanceled initial
        = Some (Inr (jobIdOfCopy eng),
                \<lparr>checks = (if throwIfCanceled = None then 0 else 1), fetches = 1,
                 trace = [Copy src dst options] @
                         (if throwIfCanceled = None then [] else [ThrowIfCanceled]) @
                         [GetJobInfo (jobIdOfCopy eng),
                          ReportToOutputWindow (finishedWork src (latestStatus eng 0))] @
                         (if notif then [ReportToNotification (finishedWork src (latestStatus eng 0))] else []) @
                         [SetTimeout 1000]\<rparr>))"
proof (intro conjI impI)
  assume run: "startAndWaitForCopy eng src dst options notif throwIfCanceled initial = Some (Inr jid, w')"
  obtain k where f: "firstEndOfJobAt eng k" and p: "checksPassBefore throwIfCanceled k"
    using startAndWaitForCopy_returns_only_if[OF run] by blast
  obtain m where k: "k = Suc m" and e: "isEndOfJob (latestStatus eng m)"
    using f firstEndOfJobAt_iff by blast
  let ?cs = "concat (map (cycleEvents eng src (jobIdOfCopy eng) notif (throwIfCanceled \<noteq> None)) [0..<Suc m])"
  have "Some (Inr jid, w') = startAndWaitForCopy eng src dst options notif throwIfCanceled initial"
    using run by (rule sym)
  also have "\<dots> =
        Some (Inr (jobIdOfCopy eng),
              \<lparr>checks = (if throwIfCanceled = None then 0 else k), fetches = k,
               trace = trace initial @ Copy src dst options #
                         concat (map (cycleEvents eng src (jobIdOfCopy eng) notif (throwIfCanceled \<noteq> None))
                                   [0..<k])\<rparr>)"
    by (rule startAndWaitForCopy_run[OF f p initial_fields(1,2)])
  finally have w: "jid = jobIdOfCopy eng"
    "w' = \<lparr>checks = (if throwIfCanceled = None then 0 else k), fetches = k,
           trace = Copy src dst options # ?cs\<rparr>"
    unfolding initial_fields(3) k by simp_all
  show "jid = jobIdOfCopy eng"
    by (rule w(1))
  show "1 \<le> occurrences isFetch w'"
    unfolding w(2) by (simp add: occurrences_def cycles_fetches del: upt_Suc)
  show "fetches w' = occurrences isFetch w'"
    unfolding w(2) by (simp add: occurrences_def cycles_fetches k del: upt_Suc)
  show "occurrences isCheck w' = (if throwIfCanceled = None then 0 else occurrences isFetch w')"
    unfolding w(2) by (simp add: occurrences_def cycles_fetches cycles_checks del: upt_Suc)
  show "isEndOfJob (latestStatus eng (fetches w' - 1))"
    unfolding w(2) using e by (simp add: k)
  show "ReportToOutputWindow (finishedWork src (latestStatus eng (fetches w' - 1))) \<in> set (trace w')"
    unfolding w(2) using terminal_reports(1)[of src eng m "jobIdOfCopy eng" notif "throwIfCanceled \<noteq> None"]
    by (simp add: k del: upt_Suc)
  show "ReportToNotification (finishedWork src (latestStatus eng (fetches w' - 1))) \<in> set (trace w')" if notif
    unfolding w(2)
    using terminal_reports(2)[OF that, of src eng m "jobIdOfCopy eng" "throwIfCanceled \<noteq> None"]
    by (simp add: k del: upt_Suc)
next
  assume h: "isEndOfJob (latestStatus eng 0) \<and> checkPasses throwIfCanceled 0"
  have f: "firstEndOfJobAt eng 1"
    using h by (simp add: firstEndOfJobAt_def)
  have p: "checksPassBefore throwIfCanceled 1"
    using h by (simp add: checksPassBefore_def)
  show "startAndWaitForCopy eng src dst options notif throwIfCanceled initial
        = Some (Inr (jobIdOfCopy eng),
                \<lparr>checks = (if throwIfCanceled = None then 0 else 1), fetches = 1,
                 trace = [Copy src dst options] @
                         (if throwIfCanceled = None then [] else [ThrowIfCanceled]) @
                         [GetJobInfo (jobIdOfCopy eng),
                          ReportToOutputWindow (finishedWork src (latestStatus eng 0))] @
                         (if notif then [ReportToNotification (finishedWork src (latestStatus eng 0))] else []) @
                         [SetTimeout 1000]\<rparr>)"
    unfolding startAndWaitForCopy_run[OF f p initial_fields(1,2)]
    by (simp add: initial_fields(3) cycleEvents_def)
qed

theorem loop_body_runs_at_least_once_witness:
  "isEndOfJob (latestStatus immediateEngine 0) \<and> checkPasses (Some neverCanceled) 0 \<and>
   startAndWaitForCopy immediateEngine exampleSource exampleDestination (copyOptions LocalBlob) True
       (Some neverCanceled) initial
     = Some (Inr ''job-1'',
             \<lparr>checks = 1, fetches = 1,
              trace = [Copy exampleSource exampleDestination (copyOptions LocalBlob), ThrowIfCanceled,
                       GetJobInfo ''job-1'', ReportToOutputWindow 1, ReportToNotification 1,
                       SetTimeout 1000]\<rparr>) \<and>
   occurrences isFetch
     \<lparr>checks = 1, fetches = 1,
      trace = [Copy exampleSource exampleDestination (copyOptions LocalBlob), ThrowIfCanceled,
               GetJobInfo ''job-1'', ReportToOutputWindow 1, ReportToNotification 1,
               SetTimeout 1000]\<rparr> = 1 \<and>
   occurrences isCheck
     \<lparr>checks = 1, fetches = 1,
      trace = [Copy exampleSource exampleDestination (copyOptions LocalBlob), ThrowIfCanceled,
               GetJobInfo ''job-1'', ReportToOutputWindow 1, ReportToNotification 1,
               SetTimeout 1000]\<rparr> = 1 \<and>
   ReportToNotification (finishedWork exampleSource (latestStatus immediateEngine (1 - 1)))
     \<in> set [Copy exampleSource exampleDestination (copyOptions LocalBlob), ThrowIfCanceled,
              GetJobInfo ''job-1'', ReportToOutputWindow 1, ReportToNotification 1,
              SetTimeout 1000]"
proof -
  let ?w = "\<lparr>checks = 1, fetches = 1,
             trace = [Copy exampleSource exampleDestination (copyOptions LocalBlob), ThrowIfCanceled,
                      GetJobInfo ''job-1'', ReportToOutputWindow 1, ReportToNotification 1,
                      SetTimeout 1000]\<rparr>"
  have h1: "isEndOfJob (latestStatus immediateEngine 0)"
    by (simp add: immediateEngine_def immediateScript_def isEndOfJob_def endStatus_def)
  have h2: "checkPasses (Some neverCanceled) 0"
    by (simp add: checkPasses_def neverCanceled_def)
  have j: "jobIdOfCopy immediateEngine = ''job-1''"
    by (simp add: immediateEngine_def)
  note t = loop_body_runs_at_least_once[of immediateEngine exampleSource exampleDestination
      "copyOptions LocalBlob" True "Some neverCanceled" "''job-1''" ?w]
  have run: "startAndWaitForCopy immediateEngine exampleSource exampleDestination (copyOptions LocalBlob) True
               (Some neverCanceled) initial = Some (Inr ''job-1'', ?w)"
    using t h1 h2 by (simp add: j immediate_counter)
  have c: "occurrences isFetch ?w = 1" "occurrences isCheck ?w = 1"
    using t run by (simp_all add: occurrences_def)
  have n: "ReportToNotification (finishedWork exampleSource (latestStatus immediateEngine (1 - 1)))
             \<in> set (trace ?w)"
    using t run by simp
  show ?thesis
    using h1 h2 run c n by (intro conjI) simp_all
qed

end
